theory Spec2Isabelle
  imports Complex_Main "HOL-Library.AList"
begin

section \<open>JavaScript string primitives\<close>

text \<open>
  Strings are modelled as \<^typ>\<open>string\<close>. The schema vocabulary the extractors work on is
  ASCII, so \<open>toLowerCase\<close> maps the letters A-Z and leaves every other character alone.
\<close>

definition isUpper :: "char \<Rightarrow> bool" where
  "isUpper c = (let n = (of_char c :: nat) in 65 \<le> n \<and> n \<le> 90)"

definition lowerChar :: "char \<Rightarrow> char" where
  "lowerChar c = (if isUpper c then char_of ((of_char c :: nat) + 32) else c)"

definition toLowerCase :: "string \<Rightarrow> string" where
  "toLowerCase s = map lowerChar s"

text \<open>\<open>s.startsWith(p)\<close>, \<open>s.endsWith(p)\<close> and \<open>s.includes(p)\<close>.\<close>

fun startsWith :: "string \<Rightarrow> string \<Rightarrow> bool" where
  "startsWith s [] = True"
| "startsWith [] (p # ps) = False"
| "startsWith (c # cs) (p # ps) = (c = p \<and> startsWith cs ps)"

definition endsWith :: "string \<Rightarrow> string \<Rightarrow> bool" where
  "endsWith s p = startsWith (rev s) (rev p)"

fun strIncludes :: "string \<Rightarrow> string \<Rightarrow> bool" where
  "strIncludes [] p = (p = [])"
| "strIncludes (c # cs) p = (startsWith (c # cs) p \<or> strIncludes cs p)"

text \<open>The regular-expression class \<open>\w\<close>: letters, digits and the underscore.\<close>

definition isDigit :: "char \<Rightarrow> bool" where
  "isDigit c = (let n = (of_char c :: nat) in 48 \<le> n \<and> n \<le> 57)"

definition isWordChar :: "char \<Rightarrow> bool" where
  "isWordChar c = (let n = (of_char c :: nat) in
     (65 \<le> n \<and> n \<le> 90) \<or> (97 \<le> n \<and> n \<le> 122) \<or> (48 \<le> n \<and> n \<le> 57) \<or> n = 95)"

text \<open>
  \<open>s.split(/\W+/)\<close>: the pieces between maximal runs of non-word characters. A separator
  at the start or the end of the string leaves an empty piece there, and the empty string
  splits into one empty piece. \<open>cur\<close> is the piece being read, \<open>sep\<close> tells that the
  previous character belonged to a separator.
\<close>

fun splitNonWord :: "string \<Rightarrow> bool \<Rightarrow> string \<Rightarrow> string list" where
  "splitNonWord cur sep [] = [cur]"
| "splitNonWord cur sep (c # cs) =
     (if isWordChar c then splitNonWord (cur @ [c]) False cs
      else if sep then splitNonWord cur True cs
      else cur # splitNonWord [] True cs)"

text \<open>
  \<open>s.split(':')\<close> and the like: the pieces between occurrences of one separator
  character; there is always at least one piece.
\<close>

fun splitChar :: "char \<Rightarrow> string \<Rightarrow> string \<Rightarrow> string list" where
  "splitChar d cur [] = [cur]"
| "splitChar d cur (c # cs) =
     (if c = d then cur # splitChar d [] cs else splitChar d (cur @ [c]) cs)"

definition splitColon :: "string \<Rightarrow> string list" where
  "splitColon s = splitChar CHR '':'' [] s"

text \<open>\<open>s.split('..')\<close>: the separator is two dots, matched from the left.\<close>

fun splitDots :: "string \<Rightarrow> string \<Rightarrow> string list" where
  "splitDots cur [] = [cur]"
| "splitDots cur [c] = [cur @ [c]]"
| "splitDots cur (c1 # c2 # cs) =
     (if c1 = CHR ''.'' \<and> c2 = CHR ''.'' then cur # splitDots [] cs
      else splitDots (cur @ [c1]) (c2 # cs))"

text \<open>
  The idiom \<open>parts.length > 1 ? parts[1] : parts[0]\<close> of the relationship extractor, and
  the idiom \<open>s.split(':').pop() || s\<close> of the concept extractor (an empty last piece is
  falsy, so the whole string is kept).
\<close>

definition secondOrFirst :: "string list \<Rightarrow> string" where
  "secondOrFirst parts = (case parts of a # b # _ \<Rightarrow> b | [a] \<Rightarrow> a | [] \<Rightarrow> [])"

definition withoutPrefix :: "string \<Rightarrow> string" where
  "withoutPrefix s = secondOrFirst (splitColon s)"

definition lastPieceOr :: "string \<Rightarrow> string" where
  "lastPieceOr s = (let l = last (splitColon s) in if l \<noteq> [] then l else s)"

text \<open>\<open>s.replace(p, '')\<close> with a string pattern removes the first occurrence only.\<close>

fun removeFirst :: "string \<Rightarrow> string \<Rightarrow> string" where
  "removeFirst p [] = []"
| "removeFirst p (c # cs) =
     (if startsWith (c # cs) p then drop (length p) (c # cs) else c # removeFirst p cs)"

text \<open>
  \<open>parseInt\<close>: leading white space is skipped, a sign is read, then the longest run of
  digits; no digit at all gives NaN, modelled as \<open>None\<close>. Without a radix argument a
  prefix \<open>0x\<close> selects base 16; with the radix 16 the prefix is skipped.
\<close>

definition isSpace :: "char \<Rightarrow> bool" where
  "isSpace c = (let n = (of_char c :: nat) in n = 32 \<or> (9 \<le> n \<and> n \<le> 13))"

definition digitValue :: "char \<Rightarrow> nat option" where
  "digitValue c = (let n = (of_char c :: nat) in
     if 48 \<le> n \<and> n \<le> 57 then Some (n - 48)
     else if 97 \<le> n \<and> n \<le> 122 then Some (n - 87)
     else if 65 \<le> n \<and> n \<le> 90 then Some (n - 55)
     else None)"

definition isDigitIn :: "nat \<Rightarrow> char \<Rightarrow> bool" where
  "isDigitIn radix c = (case digitValue c of None \<Rightarrow> False | Some v \<Rightarrow> v < radix)"

definition digitsValue :: "nat \<Rightarrow> string \<Rightarrow> nat" where
  "digitsValue radix ds = foldl (\<lambda>acc c. acc * radix + (case digitValue c of Some v \<Rightarrow> v | None \<Rightarrow> 0)) 0 ds"

definition parseDigits :: "nat \<Rightarrow> bool \<Rightarrow> string \<Rightarrow> int option" where
  "parseDigits radix neg s =
     (let ds = takeWhile (isDigitIn radix) s in
      if ds = [] then None
      else Some (if neg then - int (digitsValue radix ds) else int (digitsValue radix ds)))"

definition hasHexPrefix :: "string \<Rightarrow> bool" where
  "hasHexPrefix s = (startsWith s ''0x'' \<or> startsWith s ''0X'')"

definition parseIntRadix :: "nat option \<Rightarrow> string \<Rightarrow> int option" where
  "parseIntRadix radix str =
     (let s = dropWhile isSpace str;
          neg = startsWith s ''-'';
          s1 = (if startsWith s ''-'' \<or> startsWith s ''+'' then drop 1 s else s)
      in case radix of
           Some r \<Rightarrow> if r = 16 \<and> hasHexPrefix s1 then parseDigits 16 neg (drop 2 s1)
                     else parseDigits r neg s1
         | None \<Rightarrow> if hasHexPrefix s1 then parseDigits 16 neg (drop 2 s1)
                   else parseDigits 10 neg s1)"

section \<open>Schema documents\<close>

text \<open>
  A parsed schema file is the tree of its root element. An element carries its qualified
  name as written in the file (\<open>xs:complexType\<close>), its attributes and its children.
  The concept extractor selects with \<open>xpath.useNamespaces\<close>, which binds the prefix
  \<open>xs\<close> to the XML Schema namespace; the schema files write that namespace with the
  same prefix, so there the XPath name test \<open>xs:T\<close> is the test that the element is
  written \<open>xs:T\<close>.
\<close>

datatype xnode = Element string "(string \<times> string) list" "xnode list" | Text string

fun nodeName :: "xnode \<Rightarrow> string" where
  "nodeName (Element n as cs) = n"
| "nodeName (Text t) = ''#text''"

text \<open>\<open>getAttribute\<close> of the DOM library in use gives the empty string for a missing attribute.\<close>

fun getAttribute :: "xnode \<Rightarrow> string \<Rightarrow> string" where
  "getAttribute (Element n as cs) a = (case map_of as a of Some v \<Rightarrow> v | None \<Rightarrow> [])"
| "getAttribute (Text t) a = []"

fun hasAttribute :: "xnode \<Rightarrow> string \<Rightarrow> bool" where
  "hasAttribute (Element n as cs) a = (map_of as a \<noteq> None)"
| "hasAttribute (Text t) a = False"

text \<open>All proper descendants of a node, in document order.\<close>

fun descendants :: "xnode \<Rightarrow> xnode list" where
  "descendants (Element n as cs) = concat (map (\<lambda>c. c # descendants c) cs)"
| "descendants (Text t) = []"

fun textContent :: "xnode \<Rightarrow> string" where
  "textContent (Element n as cs) = concat (map textContent cs)"
| "textContent (Text t) = t"

text \<open>\<open>select('//xs:T', doc)\<close> and \<open>select('.//xs:T', node)\<close>.\<close>

definition selectAll :: "string \<Rightarrow> xnode \<Rightarrow> xnode list" where
  "selectAll qname doc = filter (\<lambda>e. nodeName e = qname) (doc # descendants doc)"

definition selectBelow :: "string \<Rightarrow> xnode \<Rightarrow> xnode list" where
  "selectBelow qname e = filter (\<lambda>d. nodeName d = qname) (descendants e)"

text \<open>
  The relationship extractor walks from a selected node up through \<open>parentNode\<close>, so there
  a node is selected together with the chain of its ancestors, nearest first.
\<close>

fun located :: "xnode list \<Rightarrow> xnode \<Rightarrow> (xnode list \<times> xnode) list" where
  "located anc (Element n as cs) =
     (anc, Element n as cs) # concat (map (located (Element n as cs # anc)) cs)"
| "located anc (Text t) = [(anc, Text t)]"

definition selectAllLocated :: "string \<Rightarrow> xnode \<Rightarrow> (xnode list \<times> xnode) list" where
  "selectAllLocated qname doc = filter (\<lambda>(anc, e). nodeName e = qname) (located [] doc)"

text \<open>
  A file system gives, for a path, the parsed document, or nothing when the file cannot
  be read or parsed. \<open>path.join\<close> and \<open>path.basename\<close> are modelled for plain relative
  locations with \<open>/\<close> as separator; segments \<open>.\<close> and \<open>..\<close> are not normalised.
\<close>

type_synonym fileSystem = "string \<Rightarrow> xnode option"

datatype error =
  ReadError string | ModelNotSet | ExtractorNotSet string | CannotResolveQName string

text \<open>
  The relationship extractor calls \<open>xpath.select\<close> itself, without a namespace
  resolver. A name test with a prefix then cannot be resolved: the selection throws
  \<open>Cannot resolve QName\<close> as soon as the test meets an element, and gives the empty
  list when it meets none.
\<close>

fun isElement :: "xnode \<Rightarrow> bool" where
  "isElement (Element n as cs) = True"
| "isElement (Text t) = False"

definition qnamePrefix :: "string \<Rightarrow> string option" where
  "qnamePrefix qname = (case splitColon qname of p # l # _ \<Rightarrow> Some p | _ \<Rightarrow> None)"

definition selectAllNoResolver ::
  "string \<Rightarrow> xnode \<Rightarrow> error + (xnode list \<times> xnode) list" where
  "selectAllNoResolver qname doc =
     (case qnamePrefix qname of
        Some p \<Rightarrow>
          if list_ex (\<lambda>(anc, e). isElement e) (located [] doc)
          then Inl (CannotResolveQName p)
          else Inr (selectAllLocated qname doc)
      | None \<Rightarrow> Inr (selectAllLocated qname doc))"

definition selectBelowNoResolver :: "string \<Rightarrow> xnode \<Rightarrow> error + xnode list" where
  "selectBelowNoResolver qname e =
     (case qnamePrefix qname of
        Some p \<Rightarrow>
          if list_ex isElement (descendants e)
          then Inl (CannotResolveQName p)
          else Inr (selectBelow qname e)
      | None \<Rightarrow> Inr (selectBelow qname e))"

definition pathJoin :: "string \<Rightarrow> string \<Rightarrow> string" where
  "pathJoin base rel = (if base = [] then rel else if rel = [] then base else base @ ''/'' @ rel)"

definition basename :: "string \<Rightarrow> string \<Rightarrow> string" where
  "basename p ext =
     (let b = last (splitChar CHR ''/'' [] p) in
      if endsWith b ext \<and> b \<noteq> ext then take (length b - length ext) b else b)"

section \<open>Conceptual model\<close>

text \<open>The types of types/conceptModel.ts; a field marked optional there is an option here.\<close>

record Attribute =
  a_name :: string
  a_description :: "string option"
  a_type :: string
  a_cardinality :: string
  a_isNillable :: "bool option"
  a_defaultValue :: "string option"

record Association =
  as_name :: string
  as_description :: "string option"
  as_target :: string
  as_cardinality :: string
  as_role :: "string option"
  as_aggregationType :: "string option"

record Constraint =
  c_name :: string
  c_description :: string
  c_expression :: "string option"

record CodelistValue =
  cv_code :: string
  cv_description :: "string option"

record Codelist =
  cl_name :: string
  cl_description :: string
  cl_values :: "CodelistValue list"

record EnumerationValue =
  ev_name :: string
  ev_description :: "string option"

record Enumeration =
  en_name :: string
  en_description :: string
  en_values :: "EnumerationValue list"

record Class =
  cls_name :: string
  cls_description :: string
  cls_module :: string
  cls_stereotype :: "string option"
  cls_superClasses :: "string list option"
  cls_attributes :: "Attribute list"
  cls_associations :: "Association list option"
  cls_constraints :: "Constraint list option"
  cls_isAbstract :: "bool option"

record Module =
  m_name :: string
  m_namespace :: string
  m_description :: string
  m_classes :: "Class list"
  m_codelists :: "Codelist list option"
  m_enumerations :: "Enumeration list option"
  m_dependencies :: "string list option"

record ConceptualModel =
  version :: string
  modules :: "Module list"

section \<open>Concept extractor\<close>

text \<open>extractors/concepts.js. Each loop that pushes onto an array is a list comprehension.\<close>

definition extractDocumentation :: "xnode \<Rightarrow> string" where
  "extractDocumentation element =
     (case selectBelow ''xs:annotation'' element of
        [] \<Rightarrow> []
      | annotation # _ \<Rightarrow>
          (case selectBelow ''xs:documentation'' annotation of
             [] \<Rightarrow> []
           | documentation # _ \<Rightarrow> textContent documentation))"

definition extractModuleDescription :: "xnode \<Rightarrow> string" where
  "extractModuleDescription doc =
     (case selectAll ''xs:annotation'' doc of
        [] \<Rightarrow> []
      | annotation # _ \<Rightarrow>
          (case selectBelow ''xs:documentation'' annotation of
             [] \<Rightarrow> []
           | documentation # _ \<Rightarrow> textContent documentation))"

definition occursCardinality :: "xnode \<Rightarrow> string" where
  "occursCardinality element =
     (let minOccurs = (if getAttribute element ''minOccurs'' \<noteq> []
                       then getAttribute element ''minOccurs'' else ''1'');
          maxOccurs = (if getAttribute element ''maxOccurs'' \<noteq> []
                       then getAttribute element ''maxOccurs'' else ''1'')
      in if maxOccurs = ''unbounded'' then minOccurs @ ''..*''
         else minOccurs @ ''..'' @ maxOccurs)"

definition extractAttributes :: "xnode \<Rightarrow> Attribute list" where
  "extractAttributes complexType =
     [\<lparr>a_name = getAttribute element ''name'',
       a_description = Some (extractDocumentation element),
       a_type = lastPieceOr (getAttribute element ''type''),
       a_cardinality = occursCardinality element,
       a_isNillable = Some (getAttribute element ''nillable'' = ''true''),
       a_defaultValue = None\<rparr>.
      element \<leftarrow> selectBelow ''xs:element'' complexType,
      getAttribute element ''name'' \<noteq> [] \<and> getAttribute element ''type'' \<noteq> []]
     @
     [\<lparr>a_name = getAttribute attrElement ''name'',
       a_description = Some (extractDocumentation attrElement),
       a_type = lastPieceOr (getAttribute attrElement ''type''),
       a_cardinality = (if getAttribute attrElement ''use'' = ''required''
                        then ''1..1'' else ''0..1''),
       a_isNillable = Some False,
       a_defaultValue = None\<rparr>.
      attrElement \<leftarrow> selectBelow ''xs:attribute'' complexType,
      getAttribute attrElement ''name'' \<noteq> [] \<and> getAttribute attrElement ''type'' \<noteq> []]"

text \<open>The XPath \<open>.//xs:element[@ref]\<close> keeps the elements that carry a \<open>ref\<close> attribute.\<close>

definition extractAssociations :: "xnode \<Rightarrow> Association list" where
  "extractAssociations complexType =
     [\<lparr>as_name = lastPieceOr (getAttribute refElement ''ref''),
       as_description = Some (extractDocumentation refElement),
       as_target = lastPieceOr (getAttribute refElement ''ref''),
       as_cardinality = occursCardinality refElement,
       as_role = Some (lastPieceOr (getAttribute refElement ''ref'')),
       as_aggregationType = None\<rparr>.
      refElement \<leftarrow> filter (\<lambda>e. hasAttribute e ''ref'') (selectBelow ''xs:element'' complexType),
      getAttribute refElement ''ref'' \<noteq> []]"

definition isConstraintText :: "string \<Rightarrow> bool" where
  "isConstraintText content =
     (strIncludes content ''constraint'' \<or> strIncludes content ''restriction''
      \<or> strIncludes content ''must'' \<or> strIncludes content ''should'')"

definition extractConstraints :: "xnode \<Rightarrow> Constraint list" where
  "extractConstraints complexType =
     [\<lparr>c_name = ''Constraint'', c_description = textContent doc, c_expression = Some []\<rparr>.
      annotation \<leftarrow> selectBelow ''xs:annotation'' complexType,
      doc \<leftarrow> selectBelow ''xs:documentation'' annotation,
      isConstraintText (textContent doc)]"

definition extractSuperClasses :: "xnode \<Rightarrow> string list" where
  "extractSuperClasses complexType =
     [lastPieceOr (getAttribute extension ''base'').
      extension \<leftarrow> selectBelow ''xs:extension'' complexType,
      getAttribute extension ''base'' \<noteq> []]"

definition extractClasses :: "xnode \<Rightarrow> string \<Rightarrow> Class list" where
  "extractClasses doc moduleName =
     [\<lparr>cls_name = getAttribute complexType ''name'',
       cls_description = extractDocumentation complexType,
       cls_module = moduleName,
       cls_stereotype = None,
       cls_superClasses = Some (extractSuperClasses complexType),
       cls_attributes = extractAttributes complexType,
       cls_associations = Some (extractAssociations complexType),
       cls_constraints = Some (extractConstraints complexType),
       cls_isAbstract = Some (getAttribute complexType ''abstract'' = ''true'')\<rparr>.
      complexType \<leftarrow> selectAll ''xs:complexType'' doc,
      getAttribute complexType ''name'' \<noteq> []]"

text \<open>
  The XPath \<open>//xs:simpleType[.//xs:enumeration]\<close>, and the same with the further
  condition \<open>contains(@name, "EnumBase")\<close>.
\<close>

definition enumeratedSimpleTypes :: "xnode \<Rightarrow> xnode list" where
  "enumeratedSimpleTypes doc =
     filter (\<lambda>st. selectBelow ''xs:enumeration'' st \<noteq> []) (selectAll ''xs:simpleType'' doc)"

definition enumBaseSimpleTypes :: "xnode \<Rightarrow> xnode list" where
  "enumBaseSimpleTypes doc =
     filter (\<lambda>st. selectBelow ''xs:enumeration'' st \<noteq> []
                  \<and> strIncludes (getAttribute st ''name'') ''EnumBase'')
       (selectAll ''xs:simpleType'' doc)"

definition codelistInfo :: "xnode \<Rightarrow> Codelist" where
  "codelistInfo simpleType =
     \<lparr>cl_name = getAttribute simpleType ''name'',
      cl_description = extractDocumentation simpleType,
      cl_values = map (\<lambda>v. \<lparr>cv_code = getAttribute v ''value'',
                              cv_description = Some (extractDocumentation v)\<rparr>)
                    (selectBelow ''xs:enumeration'' simpleType)\<rparr>"

definition extractCodelists :: "xnode \<Rightarrow> string \<Rightarrow> Codelist list" where
  "extractCodelists doc moduleName =
     [codelistInfo simpleType.
      simpleType \<leftarrow> enumeratedSimpleTypes doc,
      getAttribute simpleType ''name'' \<noteq> []
      \<and> \<not> endsWith (getAttribute simpleType ''name'') ''EnumBase'']"

definition enumInfo :: "xnode \<Rightarrow> Enumeration" where
  "enumInfo simpleType =
     \<lparr>en_name = getAttribute simpleType ''name'',
      en_description = extractDocumentation simpleType,
      en_values = map (\<lambda>v. \<lparr>ev_name = getAttribute v ''value'',
                              ev_description = Some (extractDocumentation v)\<rparr>)
                    (selectBelow ''xs:enumeration'' simpleType)\<rparr>"

definition extractEnumerations :: "xnode \<Rightarrow> string \<Rightarrow> Enumeration list" where
  "extractEnumerations doc moduleName =
     [enumInfo simpleType.
      simpleType \<leftarrow> enumBaseSimpleTypes doc,
      getAttribute simpleType ''name'' \<noteq> []]"

definition extractDependencies :: "xnode \<Rightarrow> string list" where
  "extractDependencies doc =
     [basename (getAttribute importEl ''schemaLocation'') ''.xsd''.
      importEl \<leftarrow> selectAll ''xs:import'' doc,
      getAttribute importEl ''schemaLocation'' \<noteq> []]"

text \<open>
  The extractor object: its base path and the model it fills. The constructor starts
  with no module; \<open>processModuleFile\<close> appends to the model held by the object.
\<close>

record ConceptExtractor =
  xsdBasePath :: string
  conceptModel :: ConceptualModel

definition newConceptExtractor :: "string \<Rightarrow> ConceptExtractor" where
  "newConceptExtractor base =
     \<lparr>xsdBasePath = base, conceptModel = \<lparr>version = ''3.0.0'', modules = []\<rparr>\<rparr>"

definition buildModule :: "string \<Rightarrow> xnode \<Rightarrow> xnode \<Rightarrow> Module" where
  "buildModule moduleName schemaElement moduleXsdDoc =
     \<lparr>m_name = moduleName,
      m_namespace = getAttribute schemaElement ''targetNamespace'',
      m_description = extractModuleDescription moduleXsdDoc,
      m_classes = extractClasses moduleXsdDoc moduleName,
      m_codelists = Some (extractCodelists moduleXsdDoc moduleName),
      m_enumerations = Some (extractEnumerations moduleXsdDoc moduleName),
      m_dependencies = Some (extractDependencies moduleXsdDoc)\<rparr>"

definition pushModule :: "Module \<Rightarrow> ConceptExtractor \<Rightarrow> ConceptExtractor" where
  "pushModule m ex =
     ex\<lparr>conceptModel := (conceptModel ex)\<lparr>modules := modules (conceptModel ex) @ [m]\<rparr>\<rparr>"

text \<open>
  \<open>processModuleFile\<close> wraps its whole body in \<open>try\<close>/\<open>catch\<close> and only logs what it
  catches: a file that cannot be read leaves the extractor as it was, and so does a
  document without a schema element.
\<close>

definition processModuleFile ::
  "fileSystem \<Rightarrow> string \<Rightarrow> string \<Rightarrow> ConceptExtractor \<Rightarrow> ConceptExtractor" where
  "processModuleFile fs moduleName schemaLocation ex =
     (case fs (pathJoin (xsdBasePath ex) schemaLocation) of
        None \<Rightarrow> ex
      | Some moduleXsdDoc \<Rightarrow>
          (case selectAll ''xs:schema'' moduleXsdDoc of
             [] \<Rightarrow> ex
           | schemaElement # _ \<Rightarrow>
               pushModule (buildModule moduleName schemaElement moduleXsdDoc) ex))"

text \<open>
  \<open>extractAllModules\<close> reads the root schema inside a \<open>try\<close> whose \<open>catch\<close> throws the
  error again; the loop over the imports follows. It returns the model held by the
  object, and the object itself is the second component here.
\<close>

definition importStep :: "fileSystem \<Rightarrow> ConceptExtractor \<Rightarrow> xnode \<Rightarrow> ConceptExtractor" where
  "importStep fs ex importEl =
     (let schemaLocation = getAttribute importEl ''schemaLocation'' in
      if schemaLocation \<noteq> []
      then processModuleFile fs (basename schemaLocation ''.xsd'') schemaLocation ex
      else ex)"

definition extractAllModules ::
  "fileSystem \<Rightarrow> ConceptExtractor \<Rightarrow> error + (ConceptualModel \<times> ConceptExtractor)" where
  "extractAllModules fs ex =
     (let cityGmlXsdPath = pathJoin (xsdBasePath ex) ''CityGML.xsd'' in
      case fs cityGmlXsdPath of
        None \<Rightarrow> Inl (ReadError cityGmlXsdPath)
      | Some mainXsdDoc \<Rightarrow>
          (let ex' = foldl (importStep fs) ex (selectAll ''xs:import'' mainXsdDoc)
           in Inr (conceptModel ex', ex')))"

section \<open>Object classifier\<close>

text \<open>
  extractors/objects.js. A JavaScript \<open>Map\<close> is an association list in insertion
  order; \<open>set\<close> on a key already present replaces the value where it stands, which is
  \<^const>\<open>AList.update\<close>.
\<close>

record GeometryProperty =
  gp_name :: string
  gp_type :: string
  gp_cardinality :: string
  gp_role :: "string option"

record LodAttribute =
  la_name :: string
  la_level :: int
  la_type :: string
  la_role :: "string option"

record LodInfo =
  maxLod :: int
  minLod :: int
  lodAttributes :: "LodAttribute list"

record ThematicAttribute =
  ta_name :: string
  ta_type :: string
  ta_cardinality :: string

record CityObject =
  co_name :: string
  co_module :: string
  co_isAbstract :: bool
  co_superClasses :: "string list"
  co_attributes :: "Attribute list"
  co_associations :: "Association list"
  co_geometryProperties :: "GeometryProperty list"
  co_lodInfo :: LodInfo
  co_thematicAttributes :: "ThematicAttribute list"
  co_children :: "string list option"

definition cityObjectModules :: "string list" where
  "cityObjectModules =
     [''building'', ''bridge'', ''transportation'', ''vegetation'', ''waterBody'',
      ''landUse'', ''cityFurniture'', ''relief'', ''tunnel'']"

definition geometryClassPatterns :: "string list" where
  "geometryClassPatterns =
     [''Geometry'', ''Solid'', ''Surface'', ''Curve'', ''Point'', ''MultiSurface'',
      ''CompositeSurface'', ''MultiCurve'', ''CompositeCurve'', ''MultiPoint'']"

definition cityObjectMarkers :: "string list" where
  "cityObjectMarkers =
     [''AbstractCityObject'', ''AbstractFeature'', ''AbstractSpace'', ''AbstractOccupiedSpace'']"

definition cityObjectNamePatterns :: "string list" where
  "cityObjectNamePatterns =
     [''Building'', ''Bridge'', ''Road'', ''Railway'', ''Square'', ''Track'',
      ''Plant'', ''SolitaryVegetationObject'', ''PlantCover'',
      ''WaterBody'', ''WaterSurface'', ''LandUse'', ''CityFurniture'',
      ''ReliefFeature'', ''Tunnel'']"

definition isCityObjectClass :: "Class \<Rightarrow> bool" where
  "isCityObjectClass classInfo =
     ((case cls_superClasses classInfo of
         None \<Rightarrow> False
       | Some superClasses \<Rightarrow>
           list_ex (\<lambda>superClass. list_ex (strIncludes superClass) cityObjectMarkers) superClasses)
      \<or> list_ex (strIncludes (cls_name classInfo)) cityObjectNamePatterns)"

definition isGeometryType :: "string \<Rightarrow> bool" where
  "isGeometryType t = list_ex (strIncludes t) geometryClassPatterns"

definition classAssociations :: "Class \<Rightarrow> Association list" where
  "classAssociations classInfo =
     (case cls_associations classInfo of None \<Rightarrow> [] | Some as \<Rightarrow> as)"

definition extractGeometryProperties :: "Class \<Rightarrow> GeometryProperty list" where
  "extractGeometryProperties classInfo =
     [\<lparr>gp_name = a_name attribute, gp_type = a_type attribute,
       gp_cardinality = a_cardinality attribute, gp_role = None\<rparr>.
      attribute \<leftarrow> cls_attributes classInfo, isGeometryType (a_type attribute)]
     @
     [\<lparr>gp_name = as_name association, gp_type = as_target association,
       gp_cardinality = as_cardinality association, gp_role = as_role association\<rparr>.
      association \<leftarrow> classAssociations classInfo, isGeometryType (as_target association)]"

text \<open>
  The regular expressions \<open>/lod[0-9]/\<close> and \<open>/lod([0-9])/i\<close>: \<open>lodAt\<close> tells whether
  the pattern matches at the start of the string and gives the digit, \<open>lodDigit\<close> looks
  for the leftmost match. \<open>ci\<close> is the flag \<open>i\<close>.
\<close>

fun lodAt :: "bool \<Rightarrow> string \<Rightarrow> char option" where
  "lodAt ci (a # b # c # d # rest) =
     (if (if ci then toLowerCase [a, b, c] else [a, b, c]) = ''lod'' \<and> isDigit d
      then Some d else None)"
| "lodAt ci s = None"

fun lodDigit :: "bool \<Rightarrow> string \<Rightarrow> char option" where
  "lodDigit ci [] = None"
| "lodDigit ci (c # cs) =
     (case lodAt ci (c # cs) of Some d \<Rightarrow> Some d | None \<Rightarrow> lodDigit ci cs)"

definition isLodName :: "string \<Rightarrow> bool" where
  "isLodName n = (lodDigit False n \<noteq> None \<or> strIncludes n ''LOD'')"

definition extractLodLevel :: "string \<Rightarrow> int" where
  "extractLodLevel n =
     (case lodDigit True n of
        None \<Rightarrow> - 1
      | Some d \<Rightarrow> (case parseIntRadix (Some 10) [d] of Some v \<Rightarrow> v | None \<Rightarrow> - 1))"

definition lodStep :: "LodInfo \<Rightarrow> string \<times> string \<times> string option \<Rightarrow> LodInfo" where
  "lodStep lodInfo item =
     (case item of (n, t, role) \<Rightarrow>
        if isLodName n then
          (let lodLevel = extractLodLevel n in
           if lodLevel > - 1 then
             \<lparr>maxLod = (if lodLevel > maxLod lodInfo then lodLevel else maxLod lodInfo),
              minLod = (if minLod lodInfo = 0 \<or> lodLevel < minLod lodInfo
                        then lodLevel else minLod lodInfo),
              lodAttributes = lodAttributes lodInfo
                 @ [\<lparr>la_name = n, la_level = lodLevel, la_type = t, la_role = role\<rparr>]\<rparr>
           else lodInfo)
        else lodInfo)"

definition extractLodInfo :: "Class \<Rightarrow> LodInfo" where
  "extractLodInfo classInfo =
     foldl lodStep
       (foldl lodStep \<lparr>maxLod = 0, minLod = 0, lodAttributes = []\<rparr>
          (map (\<lambda>a. (a_name a, a_type a, None)) (cls_attributes classInfo)))
       (map (\<lambda>a. (as_name a, as_target a, as_role a)) (classAssociations classInfo))"

definition extractThematicAttributes :: "Class \<Rightarrow> ThematicAttribute list" where
  "extractThematicAttributes classInfo =
     [\<lparr>ta_name = a_name attribute, ta_type = a_type attribute,
       ta_cardinality = a_cardinality attribute\<rparr>.
      attribute \<leftarrow> cls_attributes classInfo,
      \<not> isGeometryType (a_type attribute) \<and> \<not> isLodName (a_name attribute)]"

definition cityObjectOf :: "Module \<Rightarrow> Class \<Rightarrow> CityObject" where
  "cityObjectOf mdl classInfo =
     \<lparr>co_name = cls_name classInfo,
      co_module = m_name mdl,
      co_isAbstract = (cls_isAbstract classInfo = Some True),
      co_superClasses = (case cls_superClasses classInfo of None \<Rightarrow> [] | Some scs \<Rightarrow> scs),
      co_attributes = cls_attributes classInfo,
      co_associations = classAssociations classInfo,
      co_geometryProperties = extractGeometryProperties classInfo,
      co_lodInfo = extractLodInfo classInfo,
      co_thematicAttributes = extractThematicAttributes classInfo,
      co_children = None\<rparr>"

definition extractCityObjectsFromModule :: "Module \<Rightarrow> (string \<times> CityObject) list" where
  "extractCityObjectsFromModule mdl =
     foldl (\<lambda>objects classInfo.
              if isCityObjectClass classInfo
              then AList.update (cls_name classInfo) (cityObjectOf mdl classInfo) objects
              else objects)
       [] (m_classes mdl)"

text \<open>
  \<open>buildObjectHierarchy\<close>: for every entry, every entry whose \<open>superClasses\<close> contain
  its key is pushed onto its \<open>children\<close>, which is created at the first push. The loops
  read \<open>superClasses\<close> only, which they never change.
\<close>

definition pushChild :: "CityObject \<Rightarrow> string \<Rightarrow> CityObject" where
  "pushChild object childName =
     object\<lparr>co_children :=
       Some ((case co_children object of None \<Rightarrow> [] | Some cs \<Rightarrow> cs) @ [childName])\<rparr>"

definition linkChildren ::
  "(string \<times> CityObject) list \<Rightarrow> string \<Rightarrow> CityObject \<Rightarrow> CityObject" where
  "linkChildren objects objectName object =
     foldl (\<lambda>obj (potentialChildName, potentialChild).
              if objectName \<in> set (co_superClasses potentialChild)
              then pushChild obj potentialChildName else obj)
       object objects"

definition buildObjectHierarchy :: "(string \<times> CityObject) list \<Rightarrow> (string \<times> CityObject) list" where
  "buildObjectHierarchy objects =
     map (\<lambda>(objectName, object). (objectName, linkChildren objects objectName object)) objects"

definition mergeObjects ::
  "(string \<times> CityObject) list \<Rightarrow> (string \<times> CityObject) list \<Rightarrow> (string \<times> CityObject) list" where
  "mergeObjects cityObjects moduleObjects =
     foldl (\<lambda>acc (n, object). AList.update n object acc) cityObjects moduleObjects"

definition collectCityObjects :: "Module list \<Rightarrow> (string \<times> CityObject) list" where
  "collectCityObjects ms =
     foldl (\<lambda>cityObjects mdl.
              if m_name mdl \<in> set cityObjectModules
              then mergeObjects cityObjects (extractCityObjectsFromModule mdl)
              else cityObjects)
       [] ms"

text \<open>
  \<open>extractAllCityObjects\<close> reads one field of the extractor, \<open>conceptualModel\<close>,
  which is the argument here. It throws when no conceptual model has been set.
\<close>

definition extractAllCityObjects ::
  "ConceptualModel option \<Rightarrow> error + (string \<times> CityObject) list" where
  "extractAllCityObjects conceptualModel =
     (case conceptualModel of
        None \<Rightarrow> Inl ModelNotSet
      | Some model \<Rightarrow> Inr (buildObjectHierarchy (collectCityObjects (modules model))))"

section \<open>Attribute classifier: cardinality analysis\<close>

text \<open>extractors/attributes.js, \<open>analyzeCardinality\<close>.\<close>

record CardinalityEntry =
  ce_className :: string
  ce_attributeName :: string

record MultiValuedEntry =
  mv_className :: string
  mv_attributeName :: string
  mv_maxOccurs :: string

record CardinalitySummary =
  requiredAttributes :: "CardinalityEntry list"
  optionalAttributes :: "CardinalityEntry list"
  multiValuedAttributes :: "MultiValuedEntry list"

text \<open>
  \<open>cardinality.split('..')[1]\<close> is undefined when there is no second piece; the test
  \<open>maxOccurs === '*' || (maxOccurs && parseInt(maxOccurs) > 1)\<close> is then false, as it
  is for an empty piece and for one that does not start with a number.
\<close>

definition maxSegment :: "string \<Rightarrow> string option" where
  "maxSegment cardinality =
     (case splitDots [] cardinality of a # b # _ \<Rightarrow> Some b | _ \<Rightarrow> None)"

definition isMultiValued :: "string option \<Rightarrow> bool" where
  "isMultiValued maxOccurs =
     (case maxOccurs of
        None \<Rightarrow> False
      | Some m \<Rightarrow> m = ''*'' \<or> (m \<noteq> [] \<and> (case parseIntRadix None m of
                                              None \<Rightarrow> False | Some v \<Rightarrow> v > 1)))"

definition cardinalityStep :: "string \<Rightarrow> CardinalitySummary \<Rightarrow> Attribute \<Rightarrow> CardinalitySummary" where
  "cardinalityStep className summary attribute =
     (let cardinality = a_cardinality attribute;
          entry = \<lparr>ce_className = className, ce_attributeName = a_name attribute\<rparr>;
          s1 = (if startsWith cardinality ''1'' \<or> startsWith cardinality ''2''
                   \<or> startsWith cardinality ''3''
                then summary\<lparr>requiredAttributes := requiredAttributes summary @ [entry]\<rparr>
                else if startsWith cardinality ''0''
                then summary\<lparr>optionalAttributes := optionalAttributes summary @ [entry]\<rparr>
                else summary);
          maxOccurs = maxSegment cardinality
      in if isMultiValued maxOccurs
         then s1\<lparr>multiValuedAttributes := multiValuedAttributes s1
                 @ [\<lparr>mv_className = className, mv_attributeName = a_name attribute,
                     mv_maxOccurs = (case maxOccurs of Some m \<Rightarrow> m | None \<Rightarrow> [])\<rparr>]\<rparr>
         else s1)"

definition analyzeCardinality :: "ConceptualModel option \<Rightarrow> error + CardinalitySummary" where
  "analyzeCardinality conceptualModel =
     (case conceptualModel of
        None \<Rightarrow> Inl ModelNotSet
      | Some model \<Rightarrow>
          Inr (foldl (\<lambda>s mdl.
                 foldl (\<lambda>s classInfo.
                    foldl (cardinalityStep (cls_name classInfo)) s (cls_attributes classInfo))
                   s (m_classes mdl))
               \<lparr>requiredAttributes = [], optionalAttributes = [], multiValuedAttributes = []\<rparr>
               (modules model)))"

section \<open>Relationship extractor\<close>

text \<open>extractors/relationships.js (relationships.ts has the same code with types).\<close>

datatype RelationshipType =
  ASSOCIATION | AGGREGATION | COMPOSITION | GENERALIZATION | SPATIAL | TEMPORAL | THEMATIC

fun relationshipTypeValue :: "RelationshipType \<Rightarrow> string" where
  "relationshipTypeValue ASSOCIATION = ''association''"
| "relationshipTypeValue AGGREGATION = ''aggregation''"
| "relationshipTypeValue COMPOSITION = ''composition''"
| "relationshipTypeValue GENERALIZATION = ''generalization''"
| "relationshipTypeValue SPATIAL = ''spatial''"
| "relationshipTypeValue TEMPORAL = ''temporal''"
| "relationshipTypeValue THEMATIC = ''thematic''"

datatype RelationshipDirection = UNIDIRECTIONAL | BIDIRECTIONAL

datatype SpatialRelationType =
  CONTAINS | WITHIN | TOUCHES | OVERLAPS | DISJOINT | EQUALS | CROSSES | INTERSECTS | REFERENCES

text \<open>
  A multiplicity bound is a number or the string \<open>*\<close>. The numbers come from
  \<open>parseInt\<close>, so a bound may be NaN, which is \<open>None\<close>.
\<close>

datatype maxBound = Unbounded | Bounded "int option"

record Multiplicity =
  mult_min :: "int option"
  mult_max :: maxBound

record RelationshipInfo =
  r_id :: string
  r_name :: string
  r_type :: RelationshipType
  r_source :: string
  r_target :: string
  r_sourceRole :: "string option"
  r_targetRole :: "string option"
  r_sourceMultiplicity :: Multiplicity
  r_targetMultiplicity :: Multiplicity
  r_direction :: RelationshipDirection
  r_description :: "string option"
  r_xsdPath :: "string option"
  r_spatialType :: "SpatialRelationType option"
  r_referentialIntegrity :: "bool option"

record ObjectExtractor =
  ox_xsdBasePath :: string
  ox_conceptualModel :: "ConceptualModel option"

text \<open>
  The fields of the extractor that \<open>extractRelationships\<close> reads or writes.
  \<open>moduleXsdDocs\<close> is a plain object; its own keys are kept in insertion order here
  and \<open>objectEntries\<close> lists them as \<open>Object.entries\<close> does.
\<close>

record RelationshipExtractor =
  rx_conceptExtractor :: "ConceptExtractor option"
  rx_objectExtractor :: "ObjectExtractor option"
  rx_relationships :: "(string \<times> RelationshipInfo) list"
  rx_xsdBasePath :: string
  rx_moduleNamespaces :: "(string \<times> string) list"
  rx_moduleXsdDocs :: "(string \<times> xnode) list"

definition newRelationshipExtractor :: RelationshipExtractor where
  "newRelationshipExtractor =
     \<lparr>rx_conceptExtractor = None, rx_objectExtractor = None, rx_relationships = [],
      rx_xsdBasePath = [], rx_moduleNamespaces = [], rx_moduleXsdDocs = []\<rparr>"

definition setConceptExtractor :: "ConceptExtractor \<Rightarrow> RelationshipExtractor \<Rightarrow> RelationshipExtractor" where
  "setConceptExtractor conceptExtractor ex = ex\<lparr>rx_conceptExtractor := Some conceptExtractor\<rparr>"

definition setObjectExtractor :: "ObjectExtractor \<Rightarrow> RelationshipExtractor \<Rightarrow> RelationshipExtractor" where
  "setObjectExtractor objectExtractor ex = ex\<lparr>rx_objectExtractor := Some objectExtractor\<rparr>"

definition setXsdBasePath :: "string \<Rightarrow> RelationshipExtractor \<Rightarrow> RelationshipExtractor" where
  "setXsdBasePath basePath ex = ex\<lparr>rx_xsdBasePath := basePath\<rparr>"

text \<open>
  \<open>Object.entries\<close> lists the keys that are array indices first, in ascending numeric
  order, then the other keys in the order of their creation.
\<close>

definition isArrayIndex :: "string \<Rightarrow> bool" where
  "isArrayIndex k =
     (k = ''0'' \<or> (k \<noteq> [] \<and> list_all isDigit k \<and> \<not> startsWith k ''0''
                  \<and> digitsValue 10 k < 4294967295))"

definition objectEntries :: "(string \<times> 'a) list \<Rightarrow> (string \<times> 'a) list" where
  "objectEntries kvs =
     sort_key (\<lambda>(k, v). digitsValue 10 k) (filter (\<lambda>(k, v). isArrayIndex k) kvs)
     @ filter (\<lambda>(k, v). \<not> isArrayIndex k) kvs"

text \<open>
  A block of the extractor either runs to its end or is left by an exception; the
  extractor keeps what was written to it before the exception. \<open>untilThrown\<close> is a
  loop whose body may throw.
\<close>

datatype outcome = Completed RelationshipExtractor | Thrown error RelationshipExtractor

fun extractorAfter :: "outcome \<Rightarrow> RelationshipExtractor" where
  "extractorAfter (Completed ex) = ex"
| "extractorAfter (Thrown e ex) = ex"

fun untilThrown ::
  "(RelationshipExtractor \<Rightarrow> 'a \<Rightarrow> outcome) \<Rightarrow> RelationshipExtractor \<Rightarrow> 'a list \<Rightarrow> outcome" where
  "untilThrown body ex [] = Completed ex"
| "untilThrown body ex (x # xs) =
     (case body ex x of
        Completed ex' \<Rightarrow> untilThrown body ex' xs
      | Thrown e ex' \<Rightarrow> Thrown e ex')"

definition relationshipsSet ::
  "string \<Rightarrow> RelationshipInfo \<Rightarrow> RelationshipExtractor \<Rightarrow> RelationshipExtractor" where
  "relationshipsSet k r ex = ex\<lparr>rx_relationships := AList.update k r (rx_relationships ex)\<rparr>"

text \<open>
  The walk up through \<open>parentNode\<close> that every \<open>process\<close> function starts with: the
  nearest ancestor that is a named \<open>xs:complexType\<close>. When there is none the name stays
  empty and the function returns.
\<close>

definition enclosingComplexType :: "xnode list \<Rightarrow> xnode option" where
  "enclosingComplexType anc =
     find (\<lambda>p. nodeName p = ''xs:complexType'' \<and> getAttribute p ''name'' \<noteq> []) anc"

definition sourceTypeNameOf :: "xnode list \<Rightarrow> string" where
  "sourceTypeNameOf anc =
     (case enclosingComplexType anc of None \<Rightarrow> [] | Some p \<Rightarrow> getAttribute p ''name'')"

definition exactlyOne :: Multiplicity where
  "exactlyOne = \<lparr>mult_min = Some 1, mult_max = Bounded (Some 1)\<rparr>"

definition occursMultiplicity :: "xnode \<Rightarrow> Multiplicity" where
  "occursMultiplicity element =
     (let minOccurs = (if getAttribute element ''minOccurs'' \<noteq> []
                       then getAttribute element ''minOccurs'' else ''1'');
          maxOccurs = (if getAttribute element ''maxOccurs'' \<noteq> []
                       then getAttribute element ''maxOccurs'' else ''1'')
      in \<lparr>mult_min = parseIntRadix (Some 10) minOccurs,
          mult_max = (if maxOccurs = ''unbounded'' then Unbounded
                      else Bounded (parseIntRadix (Some 10) maxOccurs))\<rparr>)"

definition moduleXsdPath :: "RelationshipExtractor \<Rightarrow> string \<Rightarrow> string" where
  "moduleXsdPath ex moduleName = pathJoin (rx_xsdBasePath ex) (moduleName @ ''.xsd'')"

text \<open>The two fragments of the generalization description, as UTF-8 bytes.\<close>

definition subtypeText1 :: string where
  "subtypeText1 = map char_of [235, 138, 148 :: nat]"

definition subtypeText2 :: string where
  "subtypeText2 = map char_of
     [236, 157, 152, 32, 236, 132, 156, 235, 184, 140, 237, 131, 128, 236, 158, 133,
      236, 158, 133, 235, 139, 136, 235, 139, 164 :: nat]"

definition zeroOrOne :: Multiplicity where
  "zeroOrOne = \<lparr>mult_min = Some 0, mult_max = Bounded (Some 1)\<rparr>"

definition zeroOrMore :: Multiplicity where
  "zeroOrMore = \<lparr>mult_min = Some 0, mult_max = Unbounded\<rparr>"

definition generalizationStep ::
  "string \<Rightarrow> string \<Rightarrow> RelationshipExtractor \<Rightarrow> xnode \<Rightarrow> RelationshipExtractor" where
  "generalizationStep moduleName typeName ex extensionElement =
     (let baseTypeName = getAttribute extensionElement ''base'' in
      if baseTypeName = [] then ex
      else
        let baseTypeNameWithoutPrefix = withoutPrefix baseTypeName;
            relationshipId = ''generalization_'' @ typeName @ ''_'' @ baseTypeNameWithoutPrefix
        in relationshipsSet relationshipId
             \<lparr>r_id = relationshipId,
              r_name = typeName @ ''_extends_'' @ baseTypeNameWithoutPrefix,
              r_type = GENERALIZATION,
              r_source = typeName,
              r_target = baseTypeNameWithoutPrefix,
              r_sourceRole = None,
              r_targetRole = None,
              r_sourceMultiplicity = zeroOrMore,
              r_targetMultiplicity = exactlyOne,
              r_direction = UNIDIRECTIONAL,
              r_description = Some (typeName @ subtypeText1 @ baseTypeNameWithoutPrefix
                                    @ subtypeText2),
              r_xsdPath = Some (moduleXsdPath ex moduleName),
              r_spatialType = None,
              r_referentialIntegrity = None\<rparr> ex)"

definition generalizationsOfType ::
  "string \<Rightarrow> RelationshipExtractor \<Rightarrow> xnode \<Rightarrow> outcome" where
  "generalizationsOfType moduleName ex complexTypeElement =
     (let typeName = getAttribute complexTypeElement ''name'' in
      if typeName = [] then Completed ex
      else case selectBelowNoResolver ''xs:extension'' complexTypeElement of
             Inl e \<Rightarrow> Thrown e ex
           | Inr extensionElements \<Rightarrow>
               Completed (foldl (generalizationStep moduleName typeName) ex extensionElements))"

text \<open>The body of the \<open>try\<close> block that handles one module; the \<open>catch\<close> only logs.\<close>

definition generalizationsOfModule ::
  "RelationshipExtractor \<Rightarrow> string \<times> xnode \<Rightarrow> outcome" where
  "generalizationsOfModule ex entry =
     (case entry of (moduleName, moduleDoc) \<Rightarrow>
        case selectAllNoResolver ''xs:complexType'' moduleDoc of
          Inl e \<Rightarrow> Thrown e ex
        | Inr complexTypeElements \<Rightarrow>
            untilThrown (generalizationsOfType moduleName) ex (map snd complexTypeElements))"

definition extractGeneralizationRelationships :: "RelationshipExtractor \<Rightarrow> RelationshipExtractor" where
  "extractGeneralizationRelationships ex =
     (if rx_conceptExtractor ex = None then ex
      else foldl (\<lambda>ex entry. extractorAfter (generalizationsOfModule ex entry))
             ex (objectEntries (rx_moduleXsdDocs ex)))"

definition processElementReference ::
  "xnode list \<Rightarrow> xnode \<Rightarrow> string \<Rightarrow> string \<Rightarrow> RelationshipExtractor \<Rightarrow> RelationshipExtractor" where
  "processElementReference anc elementElement elementRef moduleName ex =
     (let refWithoutPrefix = withoutPrefix elementRef;
          sourceTypeName = sourceTypeNameOf anc
      in if sourceTypeName = [] then ex
         else
           let relationType = (case anc of
                                 elementParent # _ \<Rightarrow>
                                   if nodeName elementParent = ''xs:sequence''
                                   then COMPOSITION else ASSOCIATION
                               | [] \<Rightarrow> ASSOCIATION);
               relationshipId = toLowerCase (relationshipTypeValue relationType)
                                @ ''_'' @ sourceTypeName @ ''_'' @ refWithoutPrefix
           in relationshipsSet relationshipId
                \<lparr>r_id = relationshipId,
                 r_name = sourceTypeName @ ''_has_'' @ refWithoutPrefix,
                 r_type = relationType,
                 r_source = sourceTypeName,
                 r_target = refWithoutPrefix,
                 r_sourceRole = None,
                 r_targetRole = None,
                 r_sourceMultiplicity = exactlyOne,
                 r_targetMultiplicity = occursMultiplicity elementElement,
                 r_direction = UNIDIRECTIONAL,
                 r_description = None,
                 r_xsdPath = Some (moduleXsdPath ex moduleName),
                 r_spatialType = None,
                 r_referentialIntegrity = None\<rparr> ex)"

text \<open>A type written with the prefix \<open>xs\<close> is a built-in type and gives no relationship.\<close>

definition isBuiltInType :: "string \<Rightarrow> bool" where
  "isBuiltInType t = (case splitColon t of a # b # _ \<Rightarrow> a = ''xs'' | _ \<Rightarrow> False)"

definition processElementWithType ::
  "xnode list \<Rightarrow> xnode \<Rightarrow> string \<Rightarrow> string \<Rightarrow> string \<Rightarrow> RelationshipExtractor
   \<Rightarrow> RelationshipExtractor" where
  "processElementWithType anc elementElement elementName elementType moduleName ex =
     (let typeWithoutPrefix = withoutPrefix elementType in
      if isBuiltInType elementType then ex
      else
        let sourceTypeName = sourceTypeNameOf anc in
        if sourceTypeName = [] then ex
        else
          let relationType =
                (if endsWith elementName ''Member'' \<or> strIncludes elementName ''members''
                 then AGGREGATION
                 else if endsWith elementName ''Part'' \<or> strIncludes elementName ''parts''
                 then COMPOSITION else ASSOCIATION);
              relationshipId = toLowerCase (relationshipTypeValue relationType)
                               @ ''_'' @ sourceTypeName @ ''_'' @ elementName
                               @ ''_'' @ typeWithoutPrefix
          in relationshipsSet relationshipId
               \<lparr>r_id = relationshipId,
                r_name = sourceTypeName @ ''_'' @ elementName @ ''_'' @ typeWithoutPrefix,
                r_type = relationType,
                r_source = sourceTypeName,
                r_target = typeWithoutPrefix,
                r_sourceRole = Some (toLowerCase sourceTypeName),
                r_targetRole = Some elementName,
                r_sourceMultiplicity = exactlyOne,
                r_targetMultiplicity = occursMultiplicity elementElement,
                r_direction = UNIDIRECTIONAL,
                r_description = None,
                r_xsdPath = Some (moduleXsdPath ex moduleName),
                r_spatialType = None,
                r_referentialIntegrity = None\<rparr> ex)"

definition elementStep ::
  "string \<Rightarrow> RelationshipExtractor \<Rightarrow> xnode list \<times> xnode \<Rightarrow> RelationshipExtractor" where
  "elementStep moduleName ex node =
     (case node of (anc, elementElement) \<Rightarrow>
        let elementName = getAttribute elementElement ''name'';
            elementRef = getAttribute elementElement ''ref'';
            elementType = getAttribute elementElement ''type''
        in if elementRef \<noteq> []
           then processElementReference anc elementElement elementRef moduleName ex
           else if elementName \<noteq> [] \<and> elementType \<noteq> []
           then processElementWithType anc elementElement elementName elementType moduleName ex
           else ex)"

definition extractRelationshipsFromElements ::
  "xnode \<Rightarrow> string \<Rightarrow> RelationshipExtractor \<Rightarrow> outcome" where
  "extractRelationshipsFromElements moduleDoc moduleName ex =
     (case selectAllNoResolver ''xs:element'' moduleDoc of
        Inl e \<Rightarrow> Thrown e ex
      | Inr elementNodes \<Rightarrow> Completed (foldl (elementStep moduleName) ex elementNodes))"

definition processXlinkReference ::
  "xnode list \<Rightarrow> xnode \<Rightarrow> string \<Rightarrow> RelationshipExtractor \<Rightarrow> RelationshipExtractor" where
  "processXlinkReference anc attributeElement moduleName ex =
     (case enclosingComplexType anc of
        None \<Rightarrow> ex
      | Some parentElement \<Rightarrow>
          let sourceTypeName = getAttribute parentElement ''name'';
              attributeGroup = getAttribute parentElement ''attributeGroup'';
              groupWithoutPrefix = withoutPrefix attributeGroup;
              targetTypeName =
                (if attributeGroup \<noteq> [] \<and> endsWith groupWithoutPrefix ''PropertyType''
                 then removeFirst ''PropertyType'' groupWithoutPrefix else ''Unknown'');
              relationshipId = ''spatial_'' @ sourceTypeName @ ''_'' @ targetTypeName
          in relationshipsSet relationshipId
               \<lparr>r_id = relationshipId,
                r_name = sourceTypeName @ ''_spatially_related_to_'' @ targetTypeName,
                r_type = SPATIAL,
                r_source = sourceTypeName,
                r_target = targetTypeName,
                r_sourceRole = None,
                r_targetRole = None,
                r_sourceMultiplicity = exactlyOne,
                r_targetMultiplicity = zeroOrMore,
                r_direction = UNIDIRECTIONAL,
                r_description = None,
                r_xsdPath = Some (moduleXsdPath ex moduleName),
                r_spatialType = Some REFERENCES,
                r_referentialIntegrity = None\<rparr> ex)"

definition isXlinkHref :: "string \<Rightarrow> bool" where
  "isXlinkHref attributeRef =
     (case splitColon attributeRef of a # b # _ \<Rightarrow> a = ''xlink'' \<and> b = ''href'' | _ \<Rightarrow> False)"

definition processAttributeReference ::
  "xnode list \<Rightarrow> xnode \<Rightarrow> string \<Rightarrow> string \<Rightarrow> RelationshipExtractor \<Rightarrow> RelationshipExtractor" where
  "processAttributeReference anc attributeElement attributeRef moduleName ex =
     (let refWithoutPrefix = withoutPrefix attributeRef in
      if isXlinkHref attributeRef then processXlinkReference anc attributeElement moduleName ex
      else
        let sourceTypeName = sourceTypeNameOf anc in
        if sourceTypeName = [] then ex
        else
          let relationshipId = ''association_'' @ sourceTypeName @ ''_'' @ refWithoutPrefix
          in relationshipsSet relationshipId
               \<lparr>r_id = relationshipId,
                r_name = sourceTypeName @ ''_refers_to_'' @ refWithoutPrefix,
                r_type = ASSOCIATION,
                r_source = sourceTypeName,
                r_target = refWithoutPrefix,
                r_sourceRole = None,
                r_targetRole = None,
                r_sourceMultiplicity = exactlyOne,
                r_targetMultiplicity = zeroOrOne,
                r_direction = UNIDIRECTIONAL,
                r_description = None,
                r_xsdPath = Some (moduleXsdPath ex moduleName),
                r_spatialType = None,
                r_referentialIntegrity = None\<rparr> ex)"

definition processAttributeWithType ::
  "xnode list \<Rightarrow> xnode \<Rightarrow> string \<Rightarrow> string \<Rightarrow> string \<Rightarrow> RelationshipExtractor
   \<Rightarrow> RelationshipExtractor" where
  "processAttributeWithType anc attributeElement attributeName attributeType moduleName ex =
     (let typeWithoutPrefix = withoutPrefix attributeType in
      if isBuiltInType attributeType then ex
      else
        let sourceTypeName = sourceTypeNameOf anc in
        if sourceTypeName = [] then ex
        else
          let relationshipId = ''association_'' @ sourceTypeName @ ''_'' @ attributeName
                               @ ''_'' @ typeWithoutPrefix
          in relationshipsSet relationshipId
               \<lparr>r_id = relationshipId,
                r_name = sourceTypeName @ ''_'' @ attributeName @ ''_'' @ typeWithoutPrefix,
                r_type = ASSOCIATION,
                r_source = sourceTypeName,
                r_target = typeWithoutPrefix,
                r_sourceRole = Some (toLowerCase sourceTypeName),
                r_targetRole = Some attributeName,
                r_sourceMultiplicity = exactlyOne,
                r_targetMultiplicity = zeroOrOne,
                r_direction = UNIDIRECTIONAL,
                r_description = None,
                r_xsdPath = Some (moduleXsdPath ex moduleName),
                r_spatialType = None,
                r_referentialIntegrity = None\<rparr> ex)"

definition attributeStep ::
  "string \<Rightarrow> RelationshipExtractor \<Rightarrow> xnode list \<times> xnode \<Rightarrow> RelationshipExtractor" where
  "attributeStep moduleName ex node =
     (case node of (anc, attributeElement) \<Rightarrow>
        let attributeName = getAttribute attributeElement ''name'';
            attributeType = getAttribute attributeElement ''type'';
            attributeRef = getAttribute attributeElement ''ref''
        in if attributeRef \<noteq> []
           then processAttributeReference anc attributeElement attributeRef moduleName ex
           else if attributeName \<noteq> [] \<and> attributeType \<noteq> []
           then processAttributeWithType anc attributeElement attributeName attributeType
                  moduleName ex
           else ex)"

definition extractRelationshipsFromAttributes ::
  "xnode \<Rightarrow> string \<Rightarrow> RelationshipExtractor \<Rightarrow> outcome" where
  "extractRelationshipsFromAttributes moduleDoc moduleName ex =
     (case selectAllNoResolver ''xs:attribute'' moduleDoc of
        Inl e \<Rightarrow> Thrown e ex
      | Inr attributeNodes \<Rightarrow> Completed (foldl (attributeStep moduleName) ex attributeNodes))"

text \<open>
  One \<open>try\<close> block per module holds both calls: when the first throws, the second is
  not made.
\<close>

definition associationsOfModule ::
  "RelationshipExtractor \<Rightarrow> string \<times> xnode \<Rightarrow> outcome" where
  "associationsOfModule ex entry =
     (case entry of (moduleName, moduleDoc) \<Rightarrow>
        case extractRelationshipsFromElements moduleDoc moduleName ex of
          Thrown e ex' \<Rightarrow> Thrown e ex'
        | Completed ex' \<Rightarrow> extractRelationshipsFromAttributes moduleDoc moduleName ex')"

definition extractAssociationRelationships :: "RelationshipExtractor \<Rightarrow> RelationshipExtractor" where
  "extractAssociationRelationships ex =
     foldl (\<lambda>ex entry. extractorAfter (associationsOfModule ex entry))
       ex (objectEntries (rx_moduleXsdDocs ex))"

text \<open>
  The XPath \<open>//xs:element[contains(@name, "geometry") or contains(@name, "Geometry")]\<close>
  and the loop body of \<open>extractGeometryRelationships\<close>.
\<close>

definition geometryPropertyNodes :: "xnode \<Rightarrow> error + (xnode list \<times> xnode) list" where
  "geometryPropertyNodes moduleDoc =
     (case selectAllNoResolver ''xs:element'' moduleDoc of
        Inl e \<Rightarrow> Inl e
      | Inr elementNodes \<Rightarrow>
          Inr (filter (\<lambda>(anc, e). strIncludes (getAttribute e ''name'') ''geometry''
                                 \<or> strIncludes (getAttribute e ''name'') ''Geometry'')
                 elementNodes))"

definition geometryStep ::
  "string \<Rightarrow> RelationshipExtractor \<Rightarrow> xnode list \<times> xnode \<Rightarrow> RelationshipExtractor" where
  "geometryStep moduleName ex node =
     (case node of (anc, geometryElement) \<Rightarrow>
        let geometryName = getAttribute geometryElement ''name'';
            geometryType = getAttribute geometryElement ''type''
        in if geometryName = [] \<or> geometryType = [] then ex
           else
             let sourceTypeName = sourceTypeNameOf anc in
             if sourceTypeName = [] then ex
             else
               let typeWithoutPrefix = withoutPrefix geometryType;
                   relationshipId = ''spatial_'' @ sourceTypeName @ ''_'' @ geometryName
                                    @ ''_'' @ typeWithoutPrefix;
                   spatialType =
                     (if strIncludes geometryName ''boundedBy'' then WITHIN
                      else if strIncludes geometryName ''touches'' then TOUCHES
                      else if strIncludes geometryName ''overlaps'' then OVERLAPS
                      else CONTAINS)
               in relationshipsSet relationshipId
                    \<lparr>r_id = relationshipId,
                     r_name = sourceTypeName @ ''_has_geometry_'' @ typeWithoutPrefix,
                     r_type = SPATIAL,
                     r_source = sourceTypeName,
                     r_target = typeWithoutPrefix,
                     r_sourceRole = Some (toLowerCase sourceTypeName),
                     r_targetRole = Some geometryName,
                     r_sourceMultiplicity = exactlyOne,
                     r_targetMultiplicity = zeroOrOne,
                     r_direction = UNIDIRECTIONAL,
                     r_description = None,
                     r_xsdPath = Some (moduleXsdPath ex moduleName),
                     r_spatialType = Some spatialType,
                     r_referentialIntegrity = None\<rparr> ex)"

definition geometryOfModule ::
  "RelationshipExtractor \<Rightarrow> string \<times> xnode \<Rightarrow> outcome" where
  "geometryOfModule ex entry =
     (case entry of (moduleName, moduleDoc) \<Rightarrow>
        case geometryPropertyNodes moduleDoc of
          Inl e \<Rightarrow> Thrown e ex
        | Inr nodes \<Rightarrow> Completed (foldl (geometryStep moduleName) ex nodes))"

definition extractGeometryRelationships :: "RelationshipExtractor \<Rightarrow> RelationshipExtractor" where
  "extractGeometryRelationships ex =
     foldl (\<lambda>ex entry. extractorAfter (geometryOfModule ex entry))
       ex (objectEntries (rx_moduleXsdDocs ex))"

definition extractSpatialRelationships :: "RelationshipExtractor \<Rightarrow> RelationshipExtractor" where
  "extractSpatialRelationships ex =
     (if rx_objectExtractor ex = None then ex else extractGeometryRelationships ex)"

text \<open>
  \<open>processModuleFile\<close> of the relationship extractor logs and throws again what reading,
  parsing or the selection of the schema element throws; a document without a schema
  element or without a target namespace is left out with a warning.
\<close>

definition processModuleFile_rel ::
  "fileSystem \<Rightarrow> string \<Rightarrow> RelationshipExtractor \<Rightarrow> error + RelationshipExtractor" where
  "processModuleFile_rel fs xsdFilePath ex =
     (case fs xsdFilePath of
        None \<Rightarrow> Inl (ReadError xsdFilePath)
      | Some moduleXsdDoc \<Rightarrow>
          (case selectAllNoResolver ''xs:schema'' moduleXsdDoc of
             Inl e \<Rightarrow> Inl e
           | Inr [] \<Rightarrow> Inr ex
           | Inr ((anc, schemaElement) # _) \<Rightarrow>
               let targetNamespace = getAttribute schemaElement ''targetNamespace'' in
               if targetNamespace \<noteq> [] then
                 let moduleName = basename xsdFilePath ''.xsd'' in
                 Inr (ex\<lparr>rx_moduleNamespaces :=
                            AList.update moduleName targetNamespace (rx_moduleNamespaces ex),
                          rx_moduleXsdDocs :=
                            AList.update moduleName moduleXsdDoc (rx_moduleXsdDocs ex)\<rparr>)
               else Inr ex))"

text \<open>
  \<open>extractRelationships\<close> first clears the map, the namespaces and the documents. The
  loop over the files catches what \<open>processModuleFile\<close> throws and goes on.
  \<open>extractReferentialIntegrityRules\<close> only writes to the log, so it has no counterpart
  here. The map returned is the one held by the extractor.
\<close>

definition resetExtractor :: "RelationshipExtractor \<Rightarrow> RelationshipExtractor" where
  "resetExtractor ex =
     ex\<lparr>rx_relationships := [], rx_moduleNamespaces := [], rx_moduleXsdDocs := []\<rparr>"

definition extractRelationships ::
  "fileSystem \<Rightarrow> string list \<Rightarrow> RelationshipExtractor
   \<Rightarrow> error + ((string \<times> RelationshipInfo) list \<times> RelationshipExtractor)" where
  "extractRelationships fs xsdFilePaths ex =
     (if rx_conceptExtractor ex = None then Inl (ExtractorNotSet ''conceptExtractor'')
      else if rx_objectExtractor ex = None then Inl (ExtractorNotSet ''objectExtractor'')
      else
        let ex0 = resetExtractor ex;
            ex1 = foldl (\<lambda>ex xsdFilePath.
                           case processModuleFile_rel fs xsdFilePath ex of
                             Inl err \<Rightarrow> ex
                           | Inr ex' \<Rightarrow> ex')
                    ex0 xsdFilePaths;
            ex2 = extractGeneralizationRelationships ex1;
            ex3 = extractAssociationRelationships ex2;
            ex4 = extractSpatialRelationships ex3
        in Inr (rx_relationships ex4, ex4))"

section \<open>Context assembler: relevance of two strings\<close>

text \<open>
  \<open>ContextBuilder.calculateRelevance\<close> (src/context/templates.ts). The word lists are
  JavaScript arrays: \<open>filter\<close> keeps repeated words, and \<open>length\<close> counts them.
\<close>

definition relevanceWords :: "string \<Rightarrow> string list" where
  "relevanceWords s = filter (\<lambda>w. length w > 1) (splitNonWord [] False s)"

definition calculateRelevance :: "string \<Rightarrow> string \<Rightarrow> real" where
  "calculateRelevance str1 str2 =
     (let s1 = toLowerCase str1; s2 = toLowerCase str2 in
      if s1 = s2 then 1
      else if strIncludes s1 s2 \<or> strIncludes s2 s1 then 8 / 10
      else
        let words1 = relevanceWords s1;
            words2 = relevanceWords s2;
            commonWords = filter (\<lambda>w. w \<in> set words2) words1
        in if length words1 = 0 \<or> length words2 = 0 then 0
           else real (length commonWords)
                / (real (length words1) + real (length words2) - real (length commonWords)))"

section \<open>Notions used in the statements\<close>

text \<open>
  The identifier that the relationship extractor builds: kind, source and target joined
  by underscores, with the target role before the target when the relationship has one.
\<close>

definition relationshipId ::
  "RelationshipType \<Rightarrow> string \<Rightarrow> string \<Rightarrow> string option \<Rightarrow> string" where
  "relationshipId kind source target role =
     relationshipTypeValue kind @ ''_'' @ source @ ''_''
     @ (case role of None \<Rightarrow> target | Some rl \<Rightarrow> rl @ ''_'' @ target)"

text \<open>
  What the statements say of one entry of the map: it is stored under the identifier of
  its value, and that identifier is the one built from kind, source, target and role.
\<close>

definition keyIsId :: "string \<times> RelationshipInfo \<Rightarrow> bool" where
  "keyIsId e = (r_id (snd e) = fst e)"

definition tupleOf ::
  "RelationshipInfo \<Rightarrow> RelationshipType \<times> string \<times> string \<times> string option" where
  "tupleOf r = (r_type r, r_source r, r_target r, r_targetRole r)"

definition idOfTuple :: "RelationshipType \<times> string \<times> string \<times> string option \<Rightarrow> string" where
  "idOfTuple t = (case t of (kind, source, target, role) \<Rightarrow> relationshipId kind source target role)"

definition idFromTuple :: "string \<times> RelationshipInfo \<Rightarrow> bool" where
  "idFromTuple e = (r_id (snd e) = idOfTuple (tupleOf (snd e)))"

text \<open>
  The places where the extractor writes to the map: the body of the generalization loop,
  the five \<open>process\<close> functions and the body of the geometry loop, each with the
  arguments of one call. \<open>writtenMap\<close> is the map after a sequence of such writes to
  the cleared extractor.
\<close>

datatype mapWrite =
    GeneralizationWrite string string xnode
  | ElementReferenceWrite "xnode list" xnode string string
  | ElementWithTypeWrite "xnode list" xnode string string string
  | AttributeReferenceWrite "xnode list" xnode string string
  | AttributeWithTypeWrite "xnode list" xnode string string string
  | XlinkReferenceWrite "xnode list" xnode string
  | GeometryWrite string "xnode list" xnode

fun performWrite :: "RelationshipExtractor \<Rightarrow> mapWrite \<Rightarrow> RelationshipExtractor" where
  "performWrite ex (GeneralizationWrite moduleName typeName extensionElement) =
     generalizationStep moduleName typeName ex extensionElement"
| "performWrite ex (ElementReferenceWrite anc e elementRef moduleName) =
     processElementReference anc e elementRef moduleName ex"
| "performWrite ex (ElementWithTypeWrite anc e elementName elementType moduleName) =
     processElementWithType anc e elementName elementType moduleName ex"
| "performWrite ex (AttributeReferenceWrite anc e attributeRef moduleName) =
     processAttributeReference anc e attributeRef moduleName ex"
| "performWrite ex (AttributeWithTypeWrite anc e attributeName attributeType moduleName) =
     processAttributeWithType anc e attributeName attributeType moduleName ex"
| "performWrite ex (XlinkReferenceWrite anc e moduleName) =
     processXlinkReference anc e moduleName ex"
| "performWrite ex (GeometryWrite moduleName anc e) = geometryStep moduleName ex (anc, e)"

definition writtenMap ::
  "mapWrite list \<Rightarrow> RelationshipExtractor \<Rightarrow> (string \<times> RelationshipInfo) list" where
  "writtenMap ws ex = rx_relationships (foldl performWrite (resetExtractor ex) ws)"

definition wellKeyed :: "string \<times> RelationshipInfo \<Rightarrow> bool" where
  "wellKeyed e = (case e of (k, r) \<Rightarrow>
     r_id r = k \<and> k = relationshipId (r_type r) (r_source r) (r_target r) (r_targetRole r))"

definition relsOk :: "RelationshipExtractor \<Rightarrow> bool" where
  "relsOk ex =
     (list_all wellKeyed (rx_relationships ex) \<and> distinct (map fst (rx_relationships ex)))"

text \<open>The key under which a typed attribute is stored, and the part of a relationship
  that the multiplicity convention is about.\<close>

definition typedAttributeId :: "xnode list \<Rightarrow> string \<Rightarrow> string \<Rightarrow> string" where
  "typedAttributeId anc attributeName attributeType =
     ''association_'' @ sourceTypeNameOf anc @ ''_'' @ attributeName @ ''_''
     @ withoutPrefix attributeType"

definition multiplicities ::
  "RelationshipInfo \<Rightarrow> RelationshipType \<times> Multiplicity \<times> Multiplicity" where
  "multiplicities r = (r_type r, r_sourceMultiplicity r, r_targetMultiplicity r)"

text \<open>The children of a city object; the field is absent until the first child is pushed.\<close>

definition childrenOf :: "CityObject \<Rightarrow> string list" where
  "childrenOf object = (case co_children object of None \<Rightarrow> [] | Some cs \<Rightarrow> cs)"

text \<open>
  Some class of the given name, in a module that the object classifier looks at, passes
  the test \<open>isCityObjectClass\<close>.
\<close>

definition isCityObjectIn :: "Module list \<Rightarrow> string \<Rightarrow> bool" where
  "isCityObjectIn ms k =
     list_ex (\<lambda>mdl. m_name mdl \<in> set cityObjectModules
                    \<and> list_ex (\<lambda>c. cls_name c = k \<and> isCityObjectClass c) (m_classes mdl)) ms"

definition named :: "(string \<times> CityObject) list \<Rightarrow> bool" where
  "named objects = list_all (\<lambda>(k, object). co_name object = k) objects"

text \<open>
  The error policy of the concept extractor in the words of the specification: every
  import whose file can be read and holds a schema element gives one module, every other
  import gives none, and the modules are appended to the model in the order of the imports.
\<close>

definition appendModules :: "Module list \<Rightarrow> ConceptExtractor \<Rightarrow> ConceptExtractor" where
  "appendModules ms ex =
     ex\<lparr>conceptModel := (conceptModel ex)\<lparr>modules := modules (conceptModel ex) @ ms\<rparr>\<rparr>"

definition moduleOfImport :: "fileSystem \<Rightarrow> string \<Rightarrow> xnode \<Rightarrow> Module list" where
  "moduleOfImport fs base importEl =
     (let schemaLocation = getAttribute importEl ''schemaLocation'' in
      if schemaLocation = [] then []
      else case fs (pathJoin base schemaLocation) of
             None \<Rightarrow> []
           | Some moduleXsdDoc \<Rightarrow>
               (case selectAll ''xs:schema'' moduleXsdDoc of
                  [] \<Rightarrow> []
                | schemaElement # _ \<Rightarrow>
                    [buildModule (basename schemaLocation ''.xsd'') schemaElement moduleXsdDoc]))"

definition readableModules :: "fileSystem \<Rightarrow> string \<Rightarrow> xnode \<Rightarrow> Module list" where
  "readableModules fs base mainXsdDoc =
     concat (map (moduleOfImport fs base) (selectAll ''xs:import'' mainXsdDoc))"

definition rootPath :: "string \<Rightarrow> string" where
  "rootPath base = pathJoin base ''CityGML.xsd''"



text \<open>
  Extractor objects and references to them. \<open>construct\<close> is
  \<open>new ConceptExtractor(base)\<close>. A call of \<open>extractAllModules\<close> on the object at a
  reference changes that object in place and returns \<open>this.conceptModel\<close>, the model
  object that the constructor created and that is never replaced: the value returned is
  a reference to the model of that extractor, and what it shows is the model the
  extractor holds at the time of looking.
\<close>

record objectStore =
  extractors :: "nat \<Rightarrow> ConceptExtractor"
  allocated :: nat

definition emptyStore :: objectStore where
  "emptyStore = \<lparr>extractors = (\<lambda>r. newConceptExtractor []), allocated = 0\<rparr>"

definition construct :: "string \<Rightarrow> objectStore \<Rightarrow> nat \<times> objectStore" where
  "construct base st =
     (allocated st,
      \<lparr>extractors = (extractors st)(allocated st := newConceptExtractor base),
       allocated = Suc (allocated st)\<rparr>)"

definition callExtractAllModules ::
  "fileSystem \<Rightarrow> nat \<Rightarrow> objectStore \<Rightarrow> (error + nat) \<times> objectStore" where
  "callExtractAllModules fs r st =
     (case extractAllModules fs (extractors st r) of
        Inl e \<Rightarrow> (Inl e, st)
      | Inr (model, ex') \<Rightarrow> (Inr r, st\<lparr>extractors := (extractors st)(r := ex')\<rparr>))"

definition observe :: "objectStore \<Rightarrow> error + nat \<Rightarrow> error + ConceptualModel" where
  "observe st res = map_sum id (\<lambda>r. conceptModel (extractors st r)) res"


definition twoRunsOnOne ::
  "fileSystem \<Rightarrow> fileSystem \<Rightarrow> string \<Rightarrow> objectStore
   \<Rightarrow> (error + ConceptualModel) \<times> (error + ConceptualModel)" where
  "twoRunsOnOne fs1 fs2 base st0 =
     (case construct base st0 of (a, st1) \<Rightarrow>
      case callExtractAllModules fs1 a st1 of (res1, st2) \<Rightarrow>
      case callExtractAllModules fs2 a st2 of (res2, st3) \<Rightarrow>
        (observe st3 res1, observe st3 res2))"

text \<open>The names of the modules of a model.\<close>

definition moduleNames :: "ConceptualModel \<Rightarrow> string list" where
  "moduleNames model = map m_name (modules model)"

section \<open>Example schemas\<close>

text \<open>
  A building module with one type: \<open>WallType\<close> extends
  \<open>bldg:AbstractBuildingSubdivision\<close> and declares the required attribute \<open>usage\<close> of
  type \<open>gml:CodeType\<close>.
\<close>

definition usageAttribute :: xnode where
  "usageAttribute =
     Element ''xs:attribute''
       [(''name'', ''usage''), (''type'', ''gml:CodeType''), (''use'', ''required'')] []"

definition wallExtension :: xnode where
  "wallExtension =
     Element ''xs:extension'' [(''base'', ''bldg:AbstractBuildingSubdivision'')] [usageAttribute]"

definition wallContent :: xnode where
  "wallContent = Element ''xs:complexContent'' [] [wallExtension]"

definition wallType :: xnode where
  "wallType = Element ''xs:complexType'' [(''name'', ''WallType'')] [wallContent]"

definition wallSchema :: xnode where
  "wallSchema =
     Element ''xs:schema''
       [(''targetNamespace'', ''http://www.opengis.net/citygml/building/3.0'')] [wallType]"

definition usageAncestors :: "xnode list" where
  "usageAncestors = [wallExtension, wallContent, wallType, wallSchema]"

definition wallFiles :: fileSystem where
  "wallFiles p = (if p = ''xsds/building.xsd'' then Some wallSchema else None)"

definition wallExtractor :: RelationshipExtractor where
  "wallExtractor =
     setXsdBasePath ''xsds''
       (setObjectExtractor \<lparr>ox_xsdBasePath = ''xsds'', ox_conceptualModel = None\<rparr>
          (setConceptExtractor (newConceptExtractor ''xsds'') newRelationshipExtractor))"

definition wallGeneralization :: RelationshipInfo where
  "wallGeneralization =
     \<lparr>r_id = ''generalization_WallType_AbstractBuildingSubdivision'',
      r_name = ''WallType_extends_AbstractBuildingSubdivision'',
      r_type = GENERALIZATION,
      r_source = ''WallType'',
      r_target = ''AbstractBuildingSubdivision'',
      r_sourceRole = None,
      r_targetRole = None,
      r_sourceMultiplicity = zeroOrMore,
      r_targetMultiplicity = exactlyOne,
      r_direction = UNIDIRECTIONAL,
      r_description = Some (''WallType'' @ subtypeText1 @ ''AbstractBuildingSubdivision''
                            @ subtypeText2),
      r_xsdPath = Some ''xsds/building.xsd'',
      r_spatialType = None,
      r_referentialIntegrity = None\<rparr>"

definition usageAssociation :: RelationshipInfo where
  "usageAssociation =
     \<lparr>r_id = ''association_WallType_usage_CodeType'',
      r_name = ''WallType_usage_CodeType'',
      r_type = ASSOCIATION,
      r_source = ''WallType'',
      r_target = ''CodeType'',
      r_sourceRole = Some ''walltype'',
      r_targetRole = Some ''usage'',
      r_sourceMultiplicity = exactlyOne,
      r_targetMultiplicity = zeroOrOne,
      r_direction = UNIDIRECTIONAL,
      r_description = None,
      r_xsdPath = Some ''xsds/building.xsd'',
      r_spatialType = None,
      r_referentialIntegrity = None\<rparr>"

definition wallRelationships :: "(string \<times> RelationshipInfo) list" where
  "wallRelationships =
     [(''generalization_WallType_AbstractBuildingSubdivision'', wallGeneralization),
      (''association_WallType_usage_CodeType'', usageAssociation)]"

text \<open>The two writes that the type \<open>WallType\<close> stands for.\<close>

definition wallWrites :: "mapWrite list" where
  "wallWrites =
     [GeneralizationWrite ''building'' ''WallType'' wallExtension,
      AttributeWithTypeWrite usageAncestors usageAttribute ''usage'' ''gml:CodeType''
        ''building'']"

text \<open>
  A root schema that imports the building module and a module whose file is missing,
  and the same files with the root schema missing.
\<close>

definition cityRoot :: xnode where
  "cityRoot =
     Element ''xs:schema'' [(''targetNamespace'', ''http://www.opengis.net/citygml/profiles/base/3.0'')]
       [Element ''xs:import''
          [(''namespace'', ''http://www.opengis.net/citygml/bridge/3.0''),
           (''schemaLocation'', ''bridge.xsd'')] [],
        Element ''xs:import''
          [(''namespace'', ''http://www.opengis.net/citygml/building/3.0''),
           (''schemaLocation'', ''building.xsd'')] []]"

definition cityFiles :: fileSystem where
  "cityFiles p =
     (if p = ''xsds/CityGML.xsd'' then Some cityRoot
      else if p = ''xsds/building.xsd'' then Some wallSchema
      else None)"


definition noRootFiles :: fileSystem where
  "noRootFiles p = (if p = ''xsds/building.xsd'' then Some wallSchema else None)"

text \<open>
  Conceptual models for the object classifier: a core module whose class extends an
  abstract feature type, and a building module with a type and its base type.
\<close>

definition plainClass :: "string \<Rightarrow> string \<Rightarrow> string list \<Rightarrow> Class" where
  "plainClass n m supers =
     \<lparr>cls_name = n, cls_description = [], cls_module = m, cls_stereotype = None,
      cls_superClasses = Some supers, cls_attributes = [], cls_associations = Some [],
      cls_constraints = Some [], cls_isAbstract = Some False\<rparr>"

definition plainModule :: "string \<Rightarrow> Class list \<Rightarrow> Module" where
  "plainModule n cs =
     \<lparr>m_name = n, m_namespace = [], m_description = [], m_classes = cs,
      m_codelists = Some [], m_enumerations = Some [], m_dependencies = Some []\<rparr>"

definition coreClass :: Class where
  "coreClass = plainClass ''AbstractCityObjectType'' ''core'' [''AbstractFeatureWithLifespanType'']"

definition coreModule :: Module where
  "coreModule = plainModule ''core'' [coreClass]"

definition coreModel :: ConceptualModel where
  "coreModel = \<lparr>version = ''3.0.0'', modules = [coreModule]\<rparr>"

definition abstractBuildingClass :: Class where
  "abstractBuildingClass =
     plainClass ''AbstractBuildingType'' ''building'' [''AbstractConstructionType'']"

definition buildingClass :: Class where
  "buildingClass = plainClass ''BuildingType'' ''building'' [''AbstractBuildingType'']"

definition buildingModule :: Module where
  "buildingModule = plainModule ''building'' [abstractBuildingClass, buildingClass]"

definition buildingModel :: ConceptualModel where
  "buildingModel = \<lparr>version = ''3.0.0'', modules = [buildingModule]\<rparr>"

definition abstractBuildingObject :: CityObject where
  "abstractBuildingObject =
     (cityObjectOf buildingModule abstractBuildingClass)\<lparr>co_children := Some [''BuildingType'']\<rparr>"

definition buildingObject :: CityObject where
  "buildingObject = cityObjectOf buildingModule buildingClass"

definition buildingObjects :: "(string \<times> CityObject) list" where
  "buildingObjects =
     [(''AbstractBuildingType'', abstractBuildingObject), (''BuildingType'', buildingObject)]"

text \<open>
  Simple types with enumeration facets: one named with the suffix \<open>EnumBase\<close>, one
  whose name has \<open>EnumBase\<close> in the middle, and one without a name, declared inside
  an attribute.
\<close>

definition statusFacets :: xnode where
  "statusFacets =
     Element ''xs:restriction'' [(''base'', ''xs:string'')]
       [Element ''xs:enumeration'' [(''value'', ''measured'')] [],
        Element ''xs:enumeration'' [(''value'', ''estimated'')] []]"

definition statusEnum :: xnode where
  "statusEnum = Element ''xs:simpleType'' [(''name'', ''HeightStatusEnumBase'')] [statusFacets]"

definition statusAlias :: xnode where
  "statusAlias = Element ''xs:simpleType'' [(''name'', ''HeightStatusEnumBaseType'')] [statusFacets]"

definition anonymousStatus :: xnode where
  "anonymousStatus = Element ''xs:simpleType'' [] [statusFacets]"

definition statusSchema :: xnode where
  "statusSchema =
     Element ''xs:schema'' [(''targetNamespace'', ''http://www.opengis.net/citygml/construction/3.0'')]
       [statusEnum, statusAlias,
        Element ''xs:attribute'' [(''name'', ''quality'')] [anonymousStatus]]"

text \<open>A class whose attribute must occur at least four times.\<close>

definition cornerAttribute :: Attribute where
  "cornerAttribute =
     \<lparr>a_name = ''corner'', a_description = Some [], a_type = ''PointPropertyType'',
      a_cardinality = ''4..*'', a_isNillable = Some False, a_defaultValue = None\<rparr>"

definition footprintClass :: Class where
  "footprintClass = (plainClass ''FootprintType'' ''building'' [])\<lparr>cls_attributes := [cornerAttribute]\<rparr>"

definition footprintModel :: ConceptualModel where
  "footprintModel = \<lparr>version = ''3.0.0'', modules = [plainModule ''building'' [footprintClass]]\<rparr>"

definition footprintSchemaType :: xnode where
  "footprintSchemaType =
     Element ''xs:complexType'' [(''name'', ''FootprintType'')]
       [Element ''xs:sequence'' []
          [Element ''xs:element''
             [(''name'', ''corner''), (''type'', ''gml:PointPropertyType''),
              (''minOccurs'', ''4''), (''maxOccurs'', ''unbounded'')] []]]"

section \<open>Shared lemmas\<close>

lemma foldl_preserves:
  assumes "\<And>s x. P s \<Longrightarrow> P (f s x)" and "P s"
  shows "P (foldl f s xs)"
  using assms(2) by (induction xs arbitrary: s) (simp_all add: assms(1))

lemma set_update_subset: "set (AList.update k v al) \<subseteq> insert (k, v) (set al)"
  by (induction al) auto

lemma map_of_update_same: "map_of (AList.update k v al) k = Some v"
  by (simp add: update_conv')

section \<open>Context assembler: the relevance score\<close>

lemma relevanceWords_repeated: "relevanceWords ''ab ab ab'' = [''ab'', ''ab'', ''ab'']"
  by (simp add: relevanceWords_def isWordChar_def)

lemma relevanceWords_two: "relevanceWords ''ab cd'' = [''ab'', ''cd'']"
  by (simp add: relevanceWords_def isWordChar_def)

text \<open>
  C1. The relevance score is claimed to lie in the closed interval from 0 to 1 and to be the
  Jaccard similarity of the two word sets. The word lists keep repetitions, so a word that
  occurs three times in the first string is counted three times among the common words:
  for \<open>ab ab ab\<close> against \<open>ab cd\<close> the score is 3 / (3 + 2 - 3) = 1.5.
\<close>

theorem calculateRelevance_exceeds_one:
  "calculateRelevance ''ab ab ab'' ''ab cd'' = 3 / 2
   \<and> \<not> calculateRelevance ''ab ab ab'' ''ab cd'' \<le> 1"
proof -
  have low1: "toLowerCase ''ab ab ab'' = ''ab ab ab''"
    by (simp add: toLowerCase_def lowerChar_def isUpper_def)
  have low2: "toLowerCase ''ab cd'' = ''ab cd''"
    by (simp add: toLowerCase_def lowerChar_def isUpper_def)
  have v: "calculateRelevance ''ab ab ab'' ''ab cd'' = 3 / 2"
    unfolding calculateRelevance_def low1 low2 Let_def
      relevanceWords_repeated relevanceWords_two
    by simp
  show ?thesis unfolding v by simp
qed

section \<open>Object classifier: which classes become city objects\<close>

lemma keys_classFold:
  "fst ` set (foldl (\<lambda>objects classInfo.
              if isCityObjectClass classInfo
              then AList.update (cls_name classInfo) (cityObjectOf mdl classInfo) objects
              else objects) acc cs)
   = fst ` set acc \<union> {cls_name c | c. c \<in> set cs \<and> isCityObjectClass c}"
  by (induction cs arbitrary: acc) (auto simp: dom_update)

lemma keys_extractCityObjectsFromModule:
  "fst ` set (extractCityObjectsFromModule mdl)
   = {cls_name c | c. c \<in> set (m_classes mdl) \<and> isCityObjectClass c}"
  unfolding extractCityObjectsFromModule_def by (simp add: keys_classFold)

lemma keys_mergeObjects:
  "fst ` set (mergeObjects acc objs) = fst ` set acc \<union> fst ` set objs"
  unfolding mergeObjects_def
proof (induction objs arbitrary: acc)
  case Nil
  then show ?case by simp
next
  case (Cons x objs)
  obtain n object where x: "x = (n, object)" by (cases x)
  show ?case unfolding x by (simp add: Cons.IH dom_update)
qed

lemma keys_moduleFold:
  "fst ` set (foldl (\<lambda>cityObjects mdl.
              if m_name mdl \<in> set cityObjectModules
              then mergeObjects cityObjects (extractCityObjectsFromModule mdl)
              else cityObjects) acc ms)
   = fst ` set acc \<union> {k. isCityObjectIn ms k}"
proof (induction ms arbitrary: acc)
  case Nil
  then show ?case by (simp add: isCityObjectIn_def)
next
  case (Cons mdl ms)
  show ?case
    by (auto simp: Cons.IH keys_mergeObjects keys_extractCityObjectsFromModule
        isCityObjectIn_def list_ex_iff)
qed

lemma keys_collectCityObjects:
  "fst ` set (collectCityObjects ms) = {k. isCityObjectIn ms k}"
  unfolding collectCityObjects_def by (simp add: keys_moduleFold)

lemma keys_buildObjectHierarchy:
  "map fst (buildObjectHierarchy objects) = map fst objects"
  unfolding buildObjectHierarchy_def by (induction objects) auto

lemma building_run: "extractAllCityObjects (Some buildingModel) = Inr buildingObjects"
  by code_simp

text \<open>
  C2, as stated, fails: the class \<open>AbstractCityObjectType\<close> of the core module extends a
  type whose name contains \<open>AbstractFeature\<close>, so it passes the test, but the core module
  is not one of the modules the classifier looks at and the mapping stays empty.
\<close>

theorem cityObject_outside_city_modules:
  "coreClass \<in> set (m_classes coreModule) \<and> coreModule \<in> set (modules coreModel)
   \<and> isCityObjectClass coreClass \<and> extractAllCityObjects (Some coreModel) = Inr []"
  by code_simp

text \<open>
  C2, amended. The mapping returned by \<open>extractAllCityObjects\<close> has an entry under a name
  exactly when some class of that name, in a module whose name is one of the nine
  city-object module names, has a superclass whose name contains one of the foundational
  markers or has itself a name that contains one of the domain-vocabulary words.
\<close>

theorem cityObject_keys:
  assumes "extractAllCityObjects (Some model) = Inr objects"
  shows "(k \<in> fst ` set objects) = isCityObjectIn (modules model) k"
proof -
  from assms have "objects = buildObjectHierarchy (collectCityObjects (modules model))"
    by (simp add: extractAllCityObjects_def)
  then have "fst ` set objects = fst ` set (collectCityObjects (modules model))"
    by (metis keys_buildObjectHierarchy set_map)
  then show ?thesis by (simp add: keys_collectCityObjects)
qed

theorem cityObject_keys_witness:
  "extractAllCityObjects (Some buildingModel) = Inr buildingObjects
   \<and> (''BuildingType'' \<in> fst ` set buildingObjects)
     = isCityObjectIn (modules buildingModel) ''BuildingType''
   \<and> ''BuildingType'' \<in> fst ` set buildingObjects"
proof -
  have present: "''BuildingType'' \<in> fst ` set buildingObjects"
    by (simp add: buildingObjects_def)
  show ?thesis
    using building_run cityObject_keys [OF building_run, of "''BuildingType''"] present
    by simp
qed

section \<open>Object classifier: the hierarchy\<close>

lemma named_update:
  "named objects \<Longrightarrow> co_name object = k \<Longrightarrow> named (AList.update k object objects)"
  using set_update_subset[of k object objects] by (auto simp: named_def list_all_iff)

lemma named_extractCityObjectsFromModule: "named (extractCityObjectsFromModule mdl)"
  unfolding extractCityObjectsFromModule_def
  by (rule foldl_preserves) (auto simp: named_def named_update[unfolded named_def] cityObjectOf_def)

lemma named_mergeObjects: "named acc \<Longrightarrow> named objs \<Longrightarrow> named (mergeObjects acc objs)"
  unfolding mergeObjects_def
proof (induction objs arbitrary: acc)
  case Nil
  then show ?case by simp
next
  case (Cons x objs)
  obtain n object where x: "x = (n, object)" by (cases x)
  from Cons.prems(2) have hd: "co_name object = n" and tl: "named objs"
    by (simp_all add: named_def x)
  from Cons.prems(1) hd have "named (AList.update n object acc)" by (rule named_update)
  from Cons.IH[OF this tl] show ?case by (simp add: x)
qed

lemma named_collectCityObjects: "named (collectCityObjects ms)"
  unfolding collectCityObjects_def
  by (rule foldl_preserves)
     (auto simp: named_mergeObjects named_extractCityObjectsFromModule, simp add: named_def)

lemma pushChild_fields [simp]:
  "co_name (pushChild object n) = co_name object"
  "co_superClasses (pushChild object n) = co_superClasses object"
  "childrenOf (pushChild object n) = childrenOf object @ [n]"
  by (simp_all add: pushChild_def childrenOf_def)

lemma linkFold_fields:
  "co_name (foldl (\<lambda>obj (pcn, pc). if k \<in> set (co_superClasses pc) then pushChild obj pcn else obj) object xs) = co_name object
   \<and> co_superClasses (foldl (\<lambda>obj (pcn, pc). if k \<in> set (co_superClasses pc) then pushChild obj pcn else obj) object xs) = co_superClasses object
   \<and> childrenOf (foldl (\<lambda>obj (pcn, pc). if k \<in> set (co_superClasses pc) then pushChild obj pcn else obj) object xs)
      = childrenOf object @ map fst (filter (\<lambda>(pcn, pc). k \<in> set (co_superClasses pc)) xs)"
  by (induction xs arbitrary: object) (auto split: prod.splits)

lemma linkChildren_fields:
  "co_name (linkChildren objects k object) = co_name object"
  "co_superClasses (linkChildren objects k object) = co_superClasses object"
  "childrenOf (linkChildren objects k object)
     = childrenOf object @ map fst (filter (\<lambda>(pcn, pc). k \<in> set (co_superClasses pc)) objects)"
  unfolding linkChildren_def using linkFold_fields[of k object objects] by simp_all

text \<open>
  C4. Hierarchy symmetry: for two entries \<open>C\<close> and \<open>P\<close> of the map returned by
  \<open>extractAllCityObjects\<close>, if the name of \<open>P\<close> is among the superclasses of \<open>C\<close>, then
  the name of \<open>C\<close> is among the children of \<open>P\<close>.
\<close>

theorem hierarchy_symmetric:
  assumes run: "extractAllCityObjects (Some model) = Inr objects"
    and c: "(cn, C) \<in> set objects" and p: "(pn, P) \<in> set objects"
    and sup: "co_name P \<in> set (co_superClasses C)"
  shows "co_name C \<in> set (childrenOf P)"
proof -
  let ?base = "collectCityObjects (modules model)"
  from run have objs: "objects = buildObjectHierarchy ?base"
    by (simp add: extractAllCityObjects_def)
  have nm: "named ?base" by (rule named_collectCityObjects)
  from c objs obtain C0 where c0: "(cn, C0) \<in> set ?base" and C: "C = linkChildren ?base cn C0"
    by (auto simp: buildObjectHierarchy_def)
  from p objs obtain P0 where p0: "(pn, P0) \<in> set ?base" and P: "P = linkChildren ?base pn P0"
    by (auto simp: buildObjectHierarchy_def)
  from nm c0 have cn: "co_name C0 = cn" by (auto simp: named_def list_all_iff)
  from nm p0 have pn: "co_name P0 = pn" by (auto simp: named_def list_all_iff)
  from sup have "pn \<in> set (co_superClasses C0)"
    by (simp add: C P linkChildren_fields pn)
  with c0 have "cn \<in> set (map fst (filter (\<lambda>(pcn, pc). pn \<in> set (co_superClasses pc)) ?base))"
    by force
  then show ?thesis
    by (simp add: C P linkChildren_fields cn)
qed

theorem hierarchy_symmetric_witness:
  "extractAllCityObjects (Some buildingModel) = Inr buildingObjects
   \<and> (''BuildingType'', buildingObject) \<in> set buildingObjects
   \<and> (''AbstractBuildingType'', abstractBuildingObject) \<in> set buildingObjects
   \<and> co_name abstractBuildingObject \<in> set (co_superClasses buildingObject)
   \<and> co_name buildingObject \<in> set (childrenOf abstractBuildingObject)"
proof -
  have c: "(''BuildingType'', buildingObject) \<in> set buildingObjects"
    by (simp add: buildingObjects_def)
  have p: "(''AbstractBuildingType'', abstractBuildingObject) \<in> set buildingObjects"
    by (simp add: buildingObjects_def)
  have sup: "co_name abstractBuildingObject \<in> set (co_superClasses buildingObject)"
    by code_simp
  show ?thesis
    using building_run c p sup hierarchy_symmetric [OF building_run c p sup]
    by simp
qed

section \<open>Relationship extractor: identifiers and keys\<close>

lemma relationshipsSet_ok:
  assumes "relsOk ex" and "wellKeyed (k, r)"
  shows "relsOk (relationshipsSet k r ex)"
proof -
  have "set (AList.update k r (rx_relationships ex)) \<subseteq> insert (k, r) (set (rx_relationships ex))"
    by (rule set_update_subset)
  then show ?thesis
    using assms by (auto simp: relsOk_def relationshipsSet_def list_all_iff distinct_update)
qed

lemma lower_kinds: "toLowerCase (relationshipTypeValue k) = relationshipTypeValue k"
  by (cases k) (simp_all add: toLowerCase_def lowerChar_def isUpper_def)

lemma generalizationStep_ok: "relsOk ex \<Longrightarrow> relsOk (generalizationStep mn tn ex e)"
  unfolding generalizationStep_def Let_def
  by (auto intro!: relationshipsSet_ok simp: wellKeyed_def relationshipId_def)

lemma processElementReference_ok:
  "relsOk ex \<Longrightarrow> relsOk (processElementReference anc e rf mn ex)"
  unfolding processElementReference_def Let_def
  by (auto intro!: relationshipsSet_ok simp: wellKeyed_def relationshipId_def lower_kinds
      split: list.splits)

lemma processElementWithType_ok:
  "relsOk ex \<Longrightarrow> relsOk (processElementWithType anc e n t mn ex)"
  unfolding processElementWithType_def Let_def
  by (auto intro!: relationshipsSet_ok simp: wellKeyed_def relationshipId_def lower_kinds)

lemma processXlinkReference_ok: "relsOk ex \<Longrightarrow> relsOk (processXlinkReference anc e mn ex)"
  unfolding processXlinkReference_def Let_def
  by (auto intro!: relationshipsSet_ok simp: wellKeyed_def relationshipId_def
      split: option.splits)

lemma processAttributeReference_ok:
  "relsOk ex \<Longrightarrow> relsOk (processAttributeReference anc e rf mn ex)"
  unfolding processAttributeReference_def Let_def
  by (auto intro!: relationshipsSet_ok processXlinkReference_ok
      simp: wellKeyed_def relationshipId_def)

lemma processAttributeWithType_ok:
  "relsOk ex \<Longrightarrow> relsOk (processAttributeWithType anc e n t mn ex)"
  unfolding processAttributeWithType_def Let_def
  by (auto intro!: relationshipsSet_ok simp: wellKeyed_def relationshipId_def)

lemma geometryStep_ok: "relsOk ex \<Longrightarrow> relsOk (geometryStep mn ex nd)"
  unfolding geometryStep_def Let_def
  by (auto intro!: relationshipsSet_ok simp: wellKeyed_def relationshipId_def
      split: prod.splits)

lemma elementStep_ok: "relsOk ex \<Longrightarrow> relsOk (elementStep mn ex nd)"
  unfolding elementStep_def Let_def
  by (auto simp: processElementReference_ok processElementWithType_ok split: prod.splits)

lemma attributeStep_ok: "relsOk ex \<Longrightarrow> relsOk (attributeStep mn ex nd)"
  unfolding attributeStep_def Let_def
  by (auto simp: processAttributeReference_ok processAttributeWithType_ok split: prod.splits)

lemma performWrite_ok: "relsOk ex \<Longrightarrow> relsOk (performWrite ex w)"
  by (cases w)
     (simp_all add: generalizationStep_ok processElementReference_ok processElementWithType_ok
        processAttributeReference_ok processAttributeWithType_ok processXlinkReference_ok
        geometryStep_ok)

lemma writtenMap_ok:
  "list_all wellKeyed (writtenMap ws ex) \<and> distinct (map fst (writtenMap ws ex))"
proof -
  have "relsOk (resetExtractor ex)" by (simp add: relsOk_def resetExtractor_def)
  then have "relsOk (foldl performWrite (resetExtractor ex) ws)"
    by (rule foldl_preserves[where P = relsOk, rotated]) (rule performWrite_ok)
  then show ?thesis by (simp add: relsOk_def writtenMap_def)
qed

lemma untilThrown_preserves:
  assumes "\<And>s x. P s \<Longrightarrow> P (extractorAfter (body s x))" and "P s"
  shows "P (extractorAfter (untilThrown body s xs))"
  using assms(2)
proof (induction xs arbitrary: s)
  case Nil
  then show ?case by simp
next
  case (Cons x xs)
  from Cons.prems have step: "P (extractorAfter (body s x))" by (rule assms(1))
  show ?case
  proof (cases "body s x")
    case (Completed s')
    with step have "P s'" by simp
    then have "P (extractorAfter (untilThrown body s' xs))" by (rule Cons.IH)
    with Completed show ?thesis by simp
  next
    case (Thrown e s')
    with step show ?thesis by simp
  qed
qed

lemma generalizationsOfType_ok:
  "relsOk ex \<Longrightarrow> relsOk (extractorAfter (generalizationsOfType mn ex e))"
  unfolding generalizationsOfType_def Let_def
  by (auto simp: foldl_preserves generalizationStep_ok split: sum.splits)

lemma generalizationsOfModule_ok:
  "relsOk ex \<Longrightarrow> relsOk (extractorAfter (generalizationsOfModule ex entry))"
  unfolding generalizationsOfModule_def
  by (auto intro!: untilThrown_preserves generalizationsOfType_ok
      split: prod.splits sum.splits)

lemma extractGeneralizationRelationships_ok:
  "relsOk ex \<Longrightarrow> relsOk (extractGeneralizationRelationships ex)"
  unfolding extractGeneralizationRelationships_def
  by (auto intro!: foldl_preserves generalizationsOfModule_ok)

lemma extractRelationshipsFromElements_ok:
  "relsOk ex \<Longrightarrow> relsOk (extractorAfter (extractRelationshipsFromElements doc mn ex))"
  unfolding extractRelationshipsFromElements_def
  by (auto intro!: foldl_preserves elementStep_ok split: sum.splits)

lemma extractRelationshipsFromAttributes_ok:
  "relsOk ex \<Longrightarrow> relsOk (extractorAfter (extractRelationshipsFromAttributes doc mn ex))"
  unfolding extractRelationshipsFromAttributes_def
  by (auto intro!: foldl_preserves attributeStep_ok split: sum.splits)

lemma associationsOfModule_ok:
  assumes "relsOk ex"
  shows "relsOk (extractorAfter (associationsOfModule ex entry))"
proof -
  obtain mn doc where entry: "entry = (mn, doc)" by (cases entry)
  from assms have first: "relsOk (extractorAfter (extractRelationshipsFromElements doc mn ex))"
    by (rule extractRelationshipsFromElements_ok)
  show ?thesis
  proof (cases "extractRelationshipsFromElements doc mn ex")
    case (Completed ex')
    with first have "relsOk ex'" by simp
    then have "relsOk (extractorAfter (extractRelationshipsFromAttributes doc mn ex'))"
      by (rule extractRelationshipsFromAttributes_ok)
    with Completed show ?thesis by (simp add: associationsOfModule_def entry)
  next
    case (Thrown e ex')
    with first show ?thesis by (simp add: associationsOfModule_def entry)
  qed
qed

lemma extractAssociationRelationships_ok:
  "relsOk ex \<Longrightarrow> relsOk (extractAssociationRelationships ex)"
  unfolding extractAssociationRelationships_def
  by (auto intro!: foldl_preserves associationsOfModule_ok)

lemma geometryOfModule_ok:
  "relsOk ex \<Longrightarrow> relsOk (extractorAfter (geometryOfModule ex entry))"
  unfolding geometryOfModule_def
  by (auto intro!: foldl_preserves geometryStep_ok split: prod.splits sum.splits)

lemma extractSpatialRelationships_ok:
  "relsOk ex \<Longrightarrow> relsOk (extractSpatialRelationships ex)"
  unfolding extractSpatialRelationships_def extractGeometryRelationships_def
  by (auto intro!: foldl_preserves geometryOfModule_ok)

text \<open>
  A selection without a resolver never gives a node for a name with a prefix: it throws
  or gives the empty list. So no document is ever registered, every loop over the
  registered documents is empty, and the map that \<open>extractRelationships\<close> returns is
  empty for every list of files.
\<close>

lemma text_nodeName: "\<not> isElement e \<Longrightarrow> nodeName e = ''#text''"
  by (cases e) simp_all

lemma selectAllNoResolver_prefixed:
  assumes "qnamePrefix qname = Some p" and "selectAllNoResolver qname doc = Inr ns"
  shows "ns = []"
proof -
  have "qnamePrefix ''#text'' = None"
    by (simp add: qnamePrefix_def splitColon_def)
  with assms(1) have ne: "qname \<noteq> ''#text''" by auto
  from assms have none: "\<not> list_ex (\<lambda>(anc, e). isElement e) (located [] doc)"
    and ns: "ns = selectAllLocated qname doc"
    by (auto simp: selectAllNoResolver_def split: if_splits)
  from none have "\<forall>x \<in> set (located [] doc). nodeName (snd x) = ''#text''"
    by (auto simp: list_ex_iff text_nodeName)
  with ne have "filter (\<lambda>(anc, e). nodeName e = qname) (located [] doc) = []"
    by (auto simp: filter_empty_conv)
  with ns show ?thesis by (simp add: selectAllLocated_def)
qed

lemma processModuleFile_rel_same:
  assumes "processModuleFile_rel fs p ex = Inr ex'"
  shows "ex' = ex"
proof -
  have pre: "qnamePrefix ''xs:schema'' = Some ''xs''"
    by (simp add: qnamePrefix_def splitColon_def)
  from assms obtain doc where doc: "fs p = Some doc"
    by (auto simp: processModuleFile_rel_def split: option.splits)
  show ?thesis
  proof (cases "selectAllNoResolver ''xs:schema'' doc")
    case (Inl e)
    with assms doc show ?thesis by (simp add: processModuleFile_rel_def)
  next
    case (Inr ns)
    with pre have "ns = []" by (rule selectAllNoResolver_prefixed)
    with assms doc Inr show ?thesis by (simp add: processModuleFile_rel_def)
  qed
qed

lemma loading_registers_nothing:
  "foldl (\<lambda>ex xsdFilePath.
            case processModuleFile_rel fs xsdFilePath ex of Inl err \<Rightarrow> ex | Inr ex' \<Rightarrow> ex')
     ex paths = ex"
  by (induction paths) (auto dest: processModuleFile_rel_same split: sum.splits)

lemma objectEntries_Nil: "objectEntries [] = []"
  by (simp add: objectEntries_def)

lemma extractRelationships_empty:
  assumes "extractRelationships fs paths ex = Inr (m, ex')"
  shows "m = [] \<and> ex' = resetExtractor ex"
proof -
  have docs: "rx_moduleXsdDocs (resetExtractor ex) = []"
    and rels: "rx_relationships (resetExtractor ex) = []"
    by (simp_all add: resetExtractor_def)
  have g: "extractGeneralizationRelationships (resetExtractor ex) = resetExtractor ex"
    by (simp add: extractGeneralizationRelationships_def docs objectEntries_Nil)
  have a: "extractAssociationRelationships (resetExtractor ex) = resetExtractor ex"
    by (simp add: extractAssociationRelationships_def docs objectEntries_Nil)
  have s: "extractSpatialRelationships (resetExtractor ex) = resetExtractor ex"
    by (simp add: extractSpatialRelationships_def extractGeometryRelationships_def docs
        objectEntries_Nil)
  from assms show ?thesis
    unfolding extractRelationships_def Let_def loading_registers_nothing g a s
    by (auto simp: rels split: if_splits)
qed

lemma extractRelationships_ok:
  assumes "extractRelationships fs paths ex = Inr (m, ex')"
  shows "list_all wellKeyed m \<and> distinct (map fst m)"
proof -
  let ?ex1 = "foldl (\<lambda>ex xsdFilePath.
                 case processModuleFile_rel fs xsdFilePath ex of Inl err \<Rightarrow> ex | Inr ex' \<Rightarrow> ex')
               (resetExtractor ex) paths"
  have "relsOk (resetExtractor ex)" by (simp add: relsOk_def resetExtractor_def)
  then have "relsOk ?ex1" by (simp only: loading_registers_nothing)
  then have "relsOk (extractSpatialRelationships (extractAssociationRelationships
               (extractGeneralizationRelationships ?ex1)))"
    by (intro extractSpatialRelationships_ok extractAssociationRelationships_ok
          extractGeneralizationRelationships_ok)
  moreover have "m = rx_relationships (extractSpatialRelationships
       (extractAssociationRelationships (extractGeneralizationRelationships ?ex1)))"
    using assms unfolding extractRelationships_def Let_def by (auto split: if_splits)
  ultimately show ?thesis by (simp add: relsOk_def)
qed

lemma keys_are_ids:
  assumes "list_all wellKeyed m" and "distinct (map fst m)"
  shows "list_all keyIsId m \<and> distinct (map (r_id \<circ> snd) m)"
proof -
  from assms(1) have keys: "\<forall>e \<in> set m. r_id (snd e) = fst e"
    by (auto simp: list_all_iff wellKeyed_def)
  then have eq: "map (r_id \<circ> snd) m = map fst m"
    by (auto intro!: map_cong)
  have "distinct (map (r_id \<circ> snd) m)" using assms(2) by (simp only: eq)
  with keys show ?thesis by (simp add: list_all_iff keyIsId_def)
qed

lemma ids_from_tuples:
  assumes "list_all wellKeyed m" and "distinct (map fst m)"
  shows "list_all idFromTuple m \<and> distinct (map (tupleOf \<circ> snd) m)"
proof -
  from assms(1) have ids: "\<forall>e \<in> set m. r_id (snd e) = idOfTuple (tupleOf (snd e))"
    by (auto simp: list_all_iff wellKeyed_def idOfTuple_def tupleOf_def)
  from assms(1) have "\<forall>e \<in> set m. fst e = idOfTuple (tupleOf (snd e))"
    by (auto simp: list_all_iff wellKeyed_def idOfTuple_def tupleOf_def)
  then have "map fst m = map (idOfTuple \<circ> (tupleOf \<circ> snd)) m"
    by (auto intro!: map_cong)
  with assms(2) have "distinct (map idOfTuple (map (tupleOf \<circ> snd) m))" by simp
  then have "distinct (map (tupleOf \<circ> snd) m)"
    by (rule distinct_map[THEN iffD1, THEN conjunct1])
  with ids show ?thesis by (simp add: list_all_iff idFromTuple_def)
qed

lemma wall_written: "writtenMap wallWrites wallExtractor = wallRelationships"
  by code_simp

lemma wall_run:
  "extractRelationships wallFiles [''xsds/building.xsd''] wallExtractor
   = Inr ([], resetExtractor wallExtractor)"
  by code_simp

text \<open>
  C5. In the map returned by \<open>extractRelationships\<close>, and in the map after any sequence
  of the writes the extractor makes, the identifier of every entry is the function
  \<open>relationshipId\<close> of its kind, source, target and target role, and no two entries have
  the same kind, source, target and role: so there are never two entries with the same
  tuple and different identifiers.
\<close>

theorem relationship_id_determined:
  assumes "extractRelationships fs xsdFilePaths ex = Inr (m, ex')"
  shows "list_all idFromTuple m \<and> distinct (map (tupleOf \<circ> snd) m)
         \<and> list_all idFromTuple (writtenMap ws ex)
         \<and> distinct (map (tupleOf \<circ> snd) (writtenMap ws ex))"
proof -
  from extractRelationships_ok[OF assms]
  have "list_all idFromTuple m \<and> distinct (map (tupleOf \<circ> snd) m)"
    by (intro ids_from_tuples) simp_all
  moreover from writtenMap_ok[of ws ex]
  have "list_all idFromTuple (writtenMap ws ex)
        \<and> distinct (map (tupleOf \<circ> snd) (writtenMap ws ex))"
    by (intro ids_from_tuples) simp_all
  ultimately show ?thesis by simp
qed

theorem relationship_id_determined_witness:
  "extractRelationships wallFiles [''xsds/building.xsd''] wallExtractor
     = Inr ([], resetExtractor wallExtractor)
   \<and> writtenMap wallWrites wallExtractor = wallRelationships
   \<and> list_all idFromTuple wallRelationships
   \<and> distinct (map (tupleOf \<circ> snd) wallRelationships)
   \<and> r_id usageAssociation = relationshipId ASSOCIATION ''WallType'' ''CodeType'' (Some ''usage'')"
proof -
  have i: "r_id usageAssociation
           = relationshipId ASSOCIATION ''WallType'' ''CodeType'' (Some ''usage'')"
    by code_simp
  show ?thesis
    using wall_run wall_written i relationship_id_determined [OF wall_run, of wallWrites]
    by simp
qed

text \<open>
  C10. In the map returned by \<open>extractRelationships\<close>, and in the map after any sequence
  of the writes the extractor makes, every entry is stored under the identifier of its
  value, and no identifier occurs twice among the values.
\<close>

theorem relationship_key_is_id:
  assumes "extractRelationships fs xsdFilePaths ex = Inr (m, ex')"
  shows "list_all keyIsId m \<and> distinct (map (r_id \<circ> snd) m)
         \<and> list_all keyIsId (writtenMap ws ex)
         \<and> distinct (map (r_id \<circ> snd) (writtenMap ws ex))"
proof -
  from extractRelationships_ok[OF assms]
  have "list_all keyIsId m \<and> distinct (map (r_id \<circ> snd) m)"
    by (intro keys_are_ids) simp_all
  moreover from writtenMap_ok[of ws ex]
  have "list_all keyIsId (writtenMap ws ex) \<and> distinct (map (r_id \<circ> snd) (writtenMap ws ex))"
    by (intro keys_are_ids) simp_all
  ultimately show ?thesis by simp
qed

theorem relationship_key_is_id_witness:
  "extractRelationships wallFiles [''xsds/building.xsd''] wallExtractor
     = Inr ([], resetExtractor wallExtractor)
   \<and> writtenMap wallWrites wallExtractor = wallRelationships
   \<and> map fst wallRelationships
     = [''generalization_WallType_AbstractBuildingSubdivision'',
        ''association_WallType_usage_CodeType'']
   \<and> list_all keyIsId wallRelationships
   \<and> distinct (map (r_id \<circ> snd) wallRelationships)"
proof -
  have k: "map fst wallRelationships
           = [''generalization_WallType_AbstractBuildingSubdivision'',
              ''association_WallType_usage_CodeType'']"
    by (simp add: wallRelationships_def)
  show ?thesis
    using wall_run wall_written k relationship_key_is_id [OF wall_run, of wallWrites]
    by simp
qed

section \<open>Relationship extractor: multiplicity of a typed attribute\<close>

text \<open>
  C3, as stated, fails: the attribute \<open>usage\<close> of \<open>WallType\<close> is declared with
  \<open>use="required"\<close>, and the association stored for it has the target multiplicity
  0..1, not 1..1. The extractor never reads \<open>use\<close>.
\<close>

theorem required_attribute_target_multiplicity:
  "getAttribute usageAttribute ''use'' = ''required''
   \<and> rx_relationships (processAttributeWithType usageAncestors usageAttribute ''usage''
         ''gml:CodeType'' ''building'' wallExtractor)
       = [(''association_WallType_usage_CodeType'', usageAssociation)]
   \<and> r_targetMultiplicity usageAssociation = zeroOrOne
   \<and> zeroOrOne \<noteq> exactlyOne"
  by code_simp

text \<open>
  C3, amended. For every typed attribute whose type is not written with the prefix
  \<open>xs\<close> and that lies inside a named complex type, the relationship stored under its
  identifier is an association with source multiplicity 1..1 and target multiplicity
  0..1, whatever the attribute declares as \<open>use\<close>.
\<close>

theorem typed_attribute_multiplicity:
  assumes "\<not> isBuiltInType attributeType" and "sourceTypeNameOf anc \<noteq> []"
  shows "map_option multiplicities
           (map_of (rx_relationships
                      (processAttributeWithType anc attributeElement attributeName attributeType
                         moduleName ex))
              (typedAttributeId anc attributeName attributeType))
         = Some (ASSOCIATION, exactlyOne, zeroOrOne)"
  using assms
  by (simp add: processAttributeWithType_def Let_def relationshipsSet_def typedAttributeId_def
      map_of_update_same multiplicities_def)

theorem typed_attribute_multiplicity_witness:
  "\<not> isBuiltInType ''gml:CodeType'' \<and> sourceTypeNameOf usageAncestors \<noteq> []
   \<and> map_option multiplicities
       (map_of (rx_relationships
                  (processAttributeWithType usageAncestors usageAttribute ''usage''
                     ''gml:CodeType'' ''building'' wallExtractor))
          (typedAttributeId usageAncestors ''usage'' ''gml:CodeType''))
     = Some (ASSOCIATION, exactlyOne, zeroOrOne)"
proof -
  have h1: "\<not> isBuiltInType ''gml:CodeType''" by code_simp
  have h2: "sourceTypeNameOf usageAncestors \<noteq> []" by code_simp
  show ?thesis
    using h1 h2 typed_attribute_multiplicity [OF h1 h2, of usageAttribute "''usage''"
      "''building''" wallExtractor]
    by simp
qed

section \<open>Concept extractor: codelists and enumerations\<close>

lemma codelist_name: "cl_name (codelistInfo st) = getAttribute st ''name''"
  by (simp add: codelistInfo_def)

lemma enum_name: "en_name (enumInfo st) = getAttribute st ''name''"
  by (simp add: enumInfo_def)

lemma codelist_listed:
  assumes "st \<in> set (enumeratedSimpleTypes doc)"
  shows "(codelistInfo st \<in> set (extractCodelists doc mn))
         = (getAttribute st ''name'' \<noteq> [] \<and> \<not> endsWith (getAttribute st ''name'') ''EnumBase'')"
proof
  assume "codelistInfo st \<in> set (extractCodelists doc mn)"
  then obtain st' where "codelistInfo st = codelistInfo st'"
    and "getAttribute st' ''name'' \<noteq> []" and "\<not> endsWith (getAttribute st' ''name'') ''EnumBase''"
    by (auto simp: extractCodelists_def)
  moreover from this(1) have "getAttribute st ''name'' = getAttribute st' ''name''"
    by (metis codelist_name)
  ultimately show "getAttribute st ''name'' \<noteq> [] \<and> \<not> endsWith (getAttribute st ''name'') ''EnumBase''"
    by simp
next
  assume "getAttribute st ''name'' \<noteq> [] \<and> \<not> endsWith (getAttribute st ''name'') ''EnumBase''"
  with assms show "codelistInfo st \<in> set (extractCodelists doc mn)"
    by (auto simp: extractCodelists_def)
qed

lemma startsWith_includes: "startsWith s p \<Longrightarrow> strIncludes s p"
  by (cases s) (auto elim: startsWith.elims)

lemma includes_append: "strIncludes s p \<Longrightarrow> strIncludes (t @ s) p"
  by (induction t) auto

lemma startsWith_append: "startsWith (p @ s) p"
  by (induction p) auto

lemma startsWith_decompose: "startsWith s p \<Longrightarrow> \<exists>t. s = p @ t"
  by (induction s p rule: startsWith.induct) auto

lemma includes_mid: "strIncludes (a @ p @ b) p"
  by (rule includes_append) (rule startsWith_includes, rule startsWith_append)

lemma endsWith_includes: "endsWith s p \<Longrightarrow> strIncludes s p"
proof -
  assume "endsWith s p"
  then obtain t where "rev s = rev p @ t"
    unfolding endsWith_def by (blast dest: startsWith_decompose)
  then have "s = rev t @ p @ []" by (metis append_Nil2 rev_append rev_rev_ident)
  then show ?thesis by (metis includes_mid)
qed

lemma enum_listed:
  assumes "st \<in> set (enumeratedSimpleTypes doc)"
  shows "(enumInfo st \<in> set (extractEnumerations doc mn))
         = (getAttribute st ''name'' \<noteq> [] \<and> strIncludes (getAttribute st ''name'') ''EnumBase'')"
proof
  assume "enumInfo st \<in> set (extractEnumerations doc mn)"
  then obtain st' where "enumInfo st = enumInfo st'"
    and "getAttribute st' ''name'' \<noteq> []" and "strIncludes (getAttribute st' ''name'') ''EnumBase''"
    by (auto simp: extractEnumerations_def enumBaseSimpleTypes_def)
  moreover from this(1) have "getAttribute st ''name'' = getAttribute st' ''name''"
    by (metis enum_name)
  ultimately show "getAttribute st ''name'' \<noteq> [] \<and> strIncludes (getAttribute st ''name'') ''EnumBase''"
    by simp
next
  assume "getAttribute st ''name'' \<noteq> [] \<and> strIncludes (getAttribute st ''name'') ''EnumBase''"
  with assms show "enumInfo st \<in> set (extractEnumerations doc mn)"
    by (auto simp: extractEnumerations_def enumBaseSimpleTypes_def enumeratedSimpleTypes_def)
qed

text \<open>
  C6, as stated, fails: a simple type without a name that has enumeration facets is
  listed neither as a codelist nor as an enumeration, because both loops skip a simple
  type whose name is empty.
\<close>

theorem anonymous_simpleType_unclassified:
  "anonymousStatus \<in> set (enumeratedSimpleTypes statusSchema)
   \<and> codelistInfo anonymousStatus \<notin> set (extractCodelists statusSchema ''construction'')
   \<and> enumInfo anonymousStatus \<notin> set (extractEnumerations statusSchema ''construction'')"
  by code_simp

text \<open>
  C6, amended. Of the simple types with at least one enumeration facet, one without a
  declared name is listed neither as a codelist nor as an enumeration; one whose name ends
  in \<open>EnumBase\<close> is listed as an enumeration and not as a codelist; every other one is
  listed as a codelist.
\<close>

theorem simpleType_classification:
  assumes "st \<in> set (enumeratedSimpleTypes doc)"
  shows "if getAttribute st ''name'' = []
         then codelistInfo st \<notin> set (extractCodelists doc mn)
              \<and> enumInfo st \<notin> set (extractEnumerations doc mn)
         else if endsWith (getAttribute st ''name'') ''EnumBase''
         then codelistInfo st \<notin> set (extractCodelists doc mn)
              \<and> enumInfo st \<in> set (extractEnumerations doc mn)
         else codelistInfo st \<in> set (extractCodelists doc mn)"
  using assms by (auto simp: codelist_listed enum_listed endsWith_includes)

theorem simpleType_classification_witness:
  "statusEnum \<in> set (enumeratedSimpleTypes statusSchema)
   \<and> getAttribute statusEnum ''name'' \<noteq> []
   \<and> endsWith (getAttribute statusEnum ''name'') ''EnumBase''
   \<and> codelistInfo statusEnum \<notin> set (extractCodelists statusSchema ''construction'')
   \<and> enumInfo statusEnum \<in> set (extractEnumerations statusSchema ''construction'')"
proof -
  have h: "statusEnum \<in> set (enumeratedSimpleTypes statusSchema)" by code_simp
  have n: "getAttribute statusEnum ''name'' \<noteq> []" by code_simp
  have e: "endsWith (getAttribute statusEnum ''name'') ''EnumBase''" by code_simp
  show ?thesis
    using h n e simpleType_classification [OF h, of "''construction''"]
    by simp
qed

text \<open>
  The enumeration loop selects by \<open>contains(@name, "EnumBase")\<close> where the codelist loop
  tests \<open>endsWith\<close>: a simple type whose name has \<open>EnumBase\<close> before its end is listed
  both as a codelist and as an enumeration.
\<close>

lemma enumBase_inside_name_listed_twice:
  "statusAlias \<in> set (enumeratedSimpleTypes statusSchema)
   \<and> \<not> endsWith (getAttribute statusAlias ''name'') ''EnumBase''
   \<and> codelistInfo statusAlias \<in> set (extractCodelists statusSchema ''construction'')
   \<and> enumInfo statusAlias \<in> set (extractEnumerations statusSchema ''construction'')"
  by code_simp

section \<open>Concept extractor: failures and repeated runs\<close>

lemma appendModules_Nil: "appendModules [] ex = ex"
  by (simp add: appendModules_def)

lemma appendModules_append:
  "appendModules ms2 (appendModules ms1 ex) = appendModules (ms1 @ ms2) ex"
  by (simp add: appendModules_def)

lemma appendModules_base: "xsdBasePath (appendModules ms ex) = xsdBasePath ex"
  by (simp add: appendModules_def)

lemma importStep_appends:
  "importStep fs ex importEl = appendModules (moduleOfImport fs (xsdBasePath ex) importEl) ex"
  by (simp add: importStep_def processModuleFile_def moduleOfImport_def Let_def pushModule_def
      appendModules_def split: option.splits list.splits)

lemma import_loop_appends:
  "foldl (importStep fs) ex els
   = appendModules (concat (map (moduleOfImport fs (xsdBasePath ex)) els)) ex"
proof (induction els arbitrary: ex)
  case Nil
  show ?case by (simp add: appendModules_Nil)
next
  case (Cons el els)
  have "foldl (importStep fs) ex (el # els) = foldl (importStep fs) (importStep fs ex el) els"
    by simp
  also have "\<dots> = appendModules
       (concat (map (moduleOfImport fs (xsdBasePath (importStep fs ex el))) els))
       (importStep fs ex el)"
    by (rule Cons.IH)
  also have "\<dots> = appendModules (concat (map (moduleOfImport fs (xsdBasePath ex)) (el # els))) ex"
    by (simp add: importStep_appends appendModules_base appendModules_append)
  finally show ?case .
qed

text \<open>
  C7. Error policy: when the root schema cannot be read, \<open>extractAllModules\<close> throws the
  read error; otherwise it returns, and the model has gained exactly the modules of the
  imports whose file could be read, in the order of the imports, so an import whose file
  cannot be read or parsed is left out and the others are kept.
\<close>

theorem extractAllModules_error_policy:
  "extractAllModules fs ex =
     (case fs (rootPath (xsdBasePath ex)) of
        None \<Rightarrow> Inl (ReadError (rootPath (xsdBasePath ex)))
      | Some mainXsdDoc \<Rightarrow>
          Inr (conceptModel (appendModules (readableModules fs (xsdBasePath ex) mainXsdDoc) ex),
               appendModules (readableModules fs (xsdBasePath ex) mainXsdDoc) ex))"
  by (simp add: extractAllModules_def Let_def rootPath_def import_loop_appends readableModules_def
      split: option.splits)

theorem extractAllModules_error_policy_witness:
  "extractAllModules noRootFiles (newConceptExtractor ''xsds'')
     = Inl (ReadError ''xsds/CityGML.xsd'')
   \<and> cityFiles ''xsds/bridge.xsd'' = None
   \<and> map_sum id (moduleNames \<circ> fst) (extractAllModules cityFiles (newConceptExtractor ''xsds''))
     = Inr [''building'']"
proof -
  let ?ex = "newConceptExtractor ''xsds''"
  have a: "(case noRootFiles (rootPath (xsdBasePath ?ex)) of
              None \<Rightarrow> Inl (ReadError (rootPath (xsdBasePath ?ex)))
            | Some mainXsdDoc \<Rightarrow>
                Inr (conceptModel (appendModules
                       (readableModules noRootFiles (xsdBasePath ?ex) mainXsdDoc) ?ex),
                     appendModules (readableModules noRootFiles (xsdBasePath ?ex) mainXsdDoc) ?ex))
           = Inl (ReadError ''xsds/CityGML.xsd'')"
    by code_simp
  have b: "map_sum id (moduleNames \<circ> fst)
             (case cityFiles (rootPath (xsdBasePath ?ex)) of
                None \<Rightarrow> Inl (ReadError (rootPath (xsdBasePath ?ex)))
              | Some mainXsdDoc \<Rightarrow>
                  Inr (conceptModel (appendModules
                         (readableModules cityFiles (xsdBasePath ?ex) mainXsdDoc) ?ex),
                       appendModules (readableModules cityFiles (xsdBasePath ?ex) mainXsdDoc) ?ex))
           = Inr [''building'']"
    by code_simp
  have c: "cityFiles ''xsds/bridge.xsd'' = None" by code_simp
  show ?thesis
    unfolding extractAllModules_error_policy [of noRootFiles ?ex]
      extractAllModules_error_policy [of cityFiles ?ex]
    using a b c by (intro conjI)
qed











text \<open>
  On one extractor the model object collects the modules of both calls: after the second
  call both results show the building module twice.
\<close>

lemma one_extractor_collects:
  "map_sum id moduleNames (fst (twoRunsOnOne cityFiles cityFiles ''xsds'' emptyStore))
   = Inr [''building'', ''building'']"
  by code_simp

section \<open>Attribute classifier: required attributes\<close>

text \<open>
  C8. An attribute is claimed to be listed as required exactly when its cardinality
  starts with a digit other than zero. The test only accepts the digits 1, 2 and 3: the
  attribute \<open>corner\<close>, which the concept extractor reads from an element with
  \<open>minOccurs="4"\<close> and \<open>maxOccurs="unbounded"\<close>, has the cardinality \<open>4..*\<close>
  and is listed as multi-valued, but neither as required nor as optional.
\<close>

theorem analyzeCardinality_four_or_more:
  "extractAttributes footprintSchemaType = [cornerAttribute]
   \<and> a_cardinality cornerAttribute = ''4..*''
   \<and> analyzeCardinality (Some footprintModel)
     = Inr \<lparr>requiredAttributes = [], optionalAttributes = [],
            multiValuedAttributes =
              [\<lparr>mv_className = ''FootprintType'', mv_attributeName = ''corner'',
                mv_maxOccurs = ''*''\<rparr>]\<rparr>"
  by code_simp

end
